theory Spec2Isabelle
  imports Complex_Main "HOL-Library.Multiset"
begin

section \<open>SQL values\<close>

text \<open>
  The services send parameterised SQL to a MySQL server. Numbers are rationals. A number
  that is stored in a table of scripts/init\_database.py is rounded and checked as its
  column declares; the table of main.py, whose schema is not in the repository, has the
  integer columns of the response model of main.py. SQL NULL is \<open>None\<close>. A comparison
  with NULL is NULL, and a \<open>CASE WHEN\<close> branch or a \<open>WHERE\<close> clause is taken only when
  its condition is true. The quotient of the \<open>CASE\<close> expression and of the \<open>WHERE\<close>
  clauses is the exact one.
\<close>

definition sql_div :: "rat \<Rightarrow> rat \<Rightarrow> rat option" where
  "sql_div a b = (if b = 0 then None else Some (a / b))"

definition sql_mul :: "rat option \<Rightarrow> rat \<Rightarrow> rat option" where
  "sql_mul a b = map_option (\<lambda>q. q * b) a"

fun sql_le :: "rat option \<Rightarrow> rat option \<Rightarrow> bool option" where
  "sql_le (Some a) (Some b) = Some (a \<le> b)"
| "sql_le _ _ = None"

fun sql_less :: "rat option \<Rightarrow> rat option \<Rightarrow> bool option" where
  "sql_less (Some a) (Some b) = Some (a < b)"
| "sql_less _ _ = None"

definition is_true :: "bool option \<Rightarrow> bool" where
  "is_true c = (c = Some True)"

type_synonym datetime = int

section \<open>The level endpoint of main.py\<close>

text \<open>
  \<open>update_oxygen_level\<close> in main.py works on a table \<open>oxygen_stations\<close> with the columns
  \<open>current_level_liters\<close>, \<open>alert_threshold_low\<close> and \<open>alert_threshold_critical\<close>. The row
  type holds the columns the endpoint reads or writes. The thresholds are nullable; the
  capacity and the level are integers, as in the response model of main.py.
\<close>

record level_station =
  station_id :: int
  capacity_liters :: int
  current_level_liters :: int
  alert_threshold_low :: "rat option"
  alert_threshold_critical :: "rat option"
  status :: string
  updated_at :: datetime

record HTTPException =
  status_code :: int
  detail :: string

record level_response =
  message :: string
  new_level_liters :: int

text \<open>\<open>SELECT ... WHERE station_id = %s\<close> with \<open>fetch_one\<close>: the first matching row.\<close>

definition fetch_one :: "level_station list \<Rightarrow> int \<Rightarrow> level_station option" where
  "fetch_one tbl sid = find (\<lambda>r. level_station.station_id r = sid) tbl"

text \<open>The percentage \<open>(%s / capacity_liters) * 100\<close> of the UPDATE statement.\<close>

definition level_percentage :: "int \<Rightarrow> level_station \<Rightarrow> rat option" where
  "level_percentage n r =
     sql_mul (sql_div (of_int n) (of_int (level_station.capacity_liters r))) 100"

text \<open>The \<open>CASE\<close> expression that the UPDATE statement assigns to \<open>status\<close>.\<close>

definition status_case :: "int \<Rightarrow> level_station \<Rightarrow> string" where
  "status_case n r =
     (if is_true (sql_le (level_percentage n r) (alert_threshold_critical r)) then ''critical''
      else if is_true (sql_le (level_percentage n r) (alert_threshold_low r)) then ''low''
      else ''normal'')"

definition set_level :: "datetime \<Rightarrow> int \<Rightarrow> int \<Rightarrow> level_station \<Rightarrow> level_station" where
  "set_level now sid n r =
     (if level_station.station_id r = sid
      then r\<lparr>current_level_liters := n,
             level_station.status := status_case n r,
             level_station.updated_at := now\<rparr>
      else r)"

text \<open>
  The endpoint: the table before the call, the server time, the path parameter and the
  query parameter; it returns the table after the call and either the raised
  \<open>HTTPException\<close> or the response body. A failure of the connection itself (the 500
  raised by \<open>execute_query\<close>) is not modelled.
\<close>

definition update_oxygen_level ::
  "level_station list \<Rightarrow> datetime \<Rightarrow> int \<Rightarrow> int
     \<Rightarrow> level_station list \<times> (HTTPException + level_response)" where
  "update_oxygen_level tbl now sid n =
     (case fetch_one tbl sid of
        None \<Rightarrow> (tbl, Inl \<lparr>status_code = 404, detail = ''Oxygen station not found''\<rparr>)
      | Some station \<Rightarrow>
          if n > level_station.capacity_liters station
          then (tbl, Inl \<lparr>status_code = 400, detail = ''Level cannot exceed capacity''\<rparr>)
          else (map (set_level now sid n) tbl,
                Inr \<lparr>message = ''Oxygen level updated successfully'',
                     new_level_liters = n\<rparr>))"

text \<open>
  The threshold rule as the specification words it in section 4.1, on exact numbers; the
  theorems compare it with \<open>status_case\<close>, which is the statement of the source.
\<close>

definition spec_threshold_rule :: "rat \<Rightarrow> rat \<Rightarrow> rat \<Rightarrow> rat \<Rightarrow> string" where
  "spec_threshold_rule level capacity threshold_low threshold_critical =
     (if level / capacity * 100 \<le> threshold_critical then ''critical''
      else if level / capacity * 100 \<le> threshold_low then ''low''
      else ''normal'')"

definition scenario_station :: level_station where
  "scenario_station =
     \<lparr>station_id = 1, capacity_liters = 500, current_level_liters = 500,
      alert_threshold_low = Some 30, alert_threshold_critical = Some 15,
      status = ''normal'', updated_at = 0\<rparr>"

definition status_after :: "level_station list \<Rightarrow> int \<Rightarrow> int \<Rightarrow> string option" where
  "status_after tbl sid n =
     map_option level_station.status (fetch_one (fst (update_oxygen_level tbl 0 sid n)) sid)"

section \<open>The data model of the oxygen service\<close>

text \<open>
  The Flask application (app.py, services/oxygen\_service.py) works on the schema of
  scripts/init\_database.py. The records follow the dataclasses of models/database.py.
  A field with the same name in two records is written with the record's name in front.
\<close>

record OxygenStation =
  station_id :: int
  station_name :: string
  location :: string
  capacity_liters :: rat
  current_level :: rat
  pressure_psi :: "rat option"
  flow_rate :: "rat option"
  status :: string
  last_refill :: "datetime option"
  next_maintenance :: "datetime option"
  supplier :: "string option"
  alerts_enabled :: bool
  created_at :: "datetime option"
  updated_at :: "datetime option"

record CreateOxygenStation =
  station_name :: string
  location :: string
  capacity_liters :: rat
  current_level :: rat
  pressure_psi :: "rat option"
  flow_rate :: "rat option"
  status :: string
  last_refill :: "datetime option"
  next_maintenance :: "datetime option"
  supplier :: "string option"
  alerts_enabled :: bool

record UpdateOxygenStation =
  station_name :: "string option"
  location :: "string option"
  capacity_liters :: "rat option"
  current_level :: "rat option"
  pressure_psi :: "rat option"
  flow_rate :: "rat option"
  status :: "string option"
  last_refill :: "datetime option"
  next_maintenance :: "datetime option"
  supplier :: "string option"
  alerts_enabled :: "bool option"

record OxygenReading =
  reading_id :: int
  station_id :: int
  level_liters :: rat
  pressure_psi :: "rat option"
  flow_rate :: "rat option"
  temperature :: "rat option"
  timestamp :: "datetime option"

record CreateOxygenReading =
  station_id :: int
  level_liters :: rat
  pressure_psi :: "rat option"
  flow_rate :: "rat option"
  temperature :: "rat option"

record OxygenStationFilter =
  status :: "string option"
  location :: "string option"
  low_level_threshold :: "rat option"

record PaginationParams =
  page :: int
  limit :: int
  sort_by :: string
  sort_order :: string

record 'a PaginatedResult =
  data :: "'a list"
  total :: int
  page :: int
  limit :: int
  total_pages :: int

record OxygenStatusSummary =
  total_stations :: int
  operational_stations :: int
  maintenance_stations :: int
  offline_stations :: int
  total_capacity :: rat
  total_current_level :: rat
  average_fill_percentage :: rat
  low_level_alerts :: int

text \<open>
  What a service catches in its \<open>except Exception\<close>: an \<open>Error\<close> of the MySQL
  connector, with the reason the engine gives, or Python's division by zero.
  \<open>DatabaseResult.error\<close> is a message written in the service or the caught exception
  (in place of its text \<open>str(e)\<close>).
\<close>

datatype sql_error =
  ForeignKeyFails | BadEnumValue | DataTooLong | OutOfRange | UnknownColumn | SyntaxError
  | BadLimit

datatype exn = Error sql_error | ZeroDivisionError

datatype failure = Message string | Raised exn

record 'a DatabaseResult =
  success :: bool
  data :: "'a option"
  error :: "failure option"
  insert_id :: "int option"

definition failed :: "failure \<Rightarrow> 'a DatabaseResult" where
  "failed e = \<lparr>success = False, data = None, error = Some e, insert_id = None\<rparr>"

definition succeeded :: "'a \<Rightarrow> 'a DatabaseResult" where
  "succeeded d = \<lparr>success = True, data = Some d, error = None, insert_id = None\<rparr>"

text \<open>
  The store: the two tables in insertion order, and the AUTO\_INCREMENT counter of each.
\<close>

record database =
  oxygen_stations :: "OxygenStation list"
  oxygen_readings :: "OxygenReading list"
  next_station_id :: int
  next_reading_id :: int

section \<open>The engine: comparison, ordering, paging\<close>

text \<open>
  How the engine compares strings is fixed by the collation of the tables
  (utf8mb4\_unicode\_ci), which is not part of the repository: the model takes it as a
  parameter, with the equality, the \<open>LIKE\<close> match and the order it defines.
\<close>

record collation =
  str_eq :: "string \<Rightarrow> string \<Rightarrow> bool"
  str_like :: "string \<Rightarrow> string \<Rightarrow> bool"
  str_le :: "string \<Rightarrow> string \<Rightarrow> bool"

datatype sql_value = Null | Number rat | Text string

text \<open>The order of \<open>ORDER BY ... ASC\<close>: NULL first, numbers by size, strings by collation.\<close>

fun value_le :: "collation \<Rightarrow> sql_value \<Rightarrow> sql_value \<Rightarrow> bool" where
  "value_le co Null _ = True"
| "value_le co (Number a) Null = False"
| "value_le co (Number a) (Number b) = (a \<le> b)"
| "value_le co (Number a) (Text t) = True"
| "value_le co (Text s) (Text t) = str_le co s t"
| "value_le co (Text s) _ = False"

fun insert_row :: "('a \<Rightarrow> 'a \<Rightarrow> bool) \<Rightarrow> 'a \<Rightarrow> 'a list \<Rightarrow> 'a list" where
  "insert_row le x [] = [x]"
| "insert_row le x (y # ys) = (if le x y then x # y # ys else y # insert_row le x ys)"

text \<open>
  The engine is taken to be deterministic: rows that are equal on the sort key keep
  the order of the table, in every execution of the statement.
\<close>

definition sort_rows :: "('a \<Rightarrow> 'a \<Rightarrow> bool) \<Rightarrow> 'a list \<Rightarrow> 'a list" where
  "sort_rows le xs = foldr (insert_row le) xs []"

text \<open>The direction after the sort column: \<open>True\<close> for descending. No text is ascending.\<close>

definition parse_sort_order :: "string \<Rightarrow> bool option" where
  "parse_sort_order d =
     (if d = ''ASC'' \<or> d = ''asc'' \<or> d = [] then Some False
      else if d = ''DESC'' \<or> d = ''desc'' then Some True
      else None)"

text \<open>
  \<open>ORDER BY {sort_by} {sort_order}\<close>, executed. The model executes the clause when
  \<open>sort_by\<close> is a column name of the table and \<open>sort_order\<close> a direction. For a name
  that is no column the engine answers with an error (unknown column), which the
  model reports; it reports the same for any other text, and does not follow the
  engine there (an expression or a list of columns is executed by the engine).
\<close>

definition key_le :: "collation \<Rightarrow> ('a \<Rightarrow> sql_value) \<Rightarrow> bool \<Rightarrow> 'a \<Rightarrow> 'a \<Rightarrow> bool" where
  "key_le co key desc a b =
     (if desc then value_le co (key b) (key a) else value_le co (key a) (key b))"

definition order_by ::
  "collation \<Rightarrow> (string \<Rightarrow> ('a \<Rightarrow> sql_value) option) \<Rightarrow> string \<Rightarrow> string \<Rightarrow> 'a list
     \<Rightarrow> sql_error + 'a list" where
  "order_by co columns sb so rows =
     (case columns sb of
        None \<Rightarrow> Inl UnknownColumn
      | Some key \<Rightarrow>
          (case parse_sort_order so of
             None \<Rightarrow> Inl SyntaxError
           | Some desc \<Rightarrow>
               Inr (sort_rows (key_le co key desc) rows)))"

text \<open>\<open>LIMIT %s OFFSET %s\<close>: the engine rejects a negative number.\<close>

definition limit_offset :: "int \<Rightarrow> int \<Rightarrow> 'a list \<Rightarrow> sql_error + 'a list" where
  "limit_offset l off rows =
     (if l < 0 \<or> off < 0 then Inl BadLimit else Inr (take (nat l) (drop (nat off) rows)))"

definition select_page ::
  "collation \<Rightarrow> (string \<Rightarrow> ('a \<Rightarrow> sql_value) option) \<Rightarrow> PaginationParams \<Rightarrow> 'a list
     \<Rightarrow> sql_error + 'a list" where
  "select_page co columns p rows =
     (case order_by co columns (sort_by p) (sort_order p) rows of
        Inl e \<Rightarrow> Inl e
      | Inr sorted_rows \<Rightarrow>
          limit_offset (PaginationParams.limit p)
            ((PaginationParams.page p - 1) * PaginationParams.limit p) sorted_rows)"

definition opt_number :: "rat option \<Rightarrow> sql_value" where
  "opt_number v = (case v of None \<Rightarrow> Null | Some q \<Rightarrow> Number q)"

definition opt_time :: "datetime option \<Rightarrow> sql_value" where
  "opt_time v = (case v of None \<Rightarrow> Null | Some t \<Rightarrow> Number (of_int t))"

definition opt_text :: "string option \<Rightarrow> sql_value" where
  "opt_text v = (case v of None \<Rightarrow> Null | Some t \<Rightarrow> Text t)"

text \<open>The columns of \<open>oxygen_stations\<close> and of \<open>oxygen_readings\<close>, as the schema lists them.\<close>

definition station_columns :: "(string \<times> (OxygenStation \<Rightarrow> sql_value)) list" where
  "station_columns =
     [(''station_id'', \<lambda>s. Number (of_int (OxygenStation.station_id s))),
      (''station_name'', \<lambda>s. Text (OxygenStation.station_name s)),
      (''location'', \<lambda>s. Text (OxygenStation.location s)),
      (''capacity_liters'', \<lambda>s. Number (OxygenStation.capacity_liters s)),
      (''current_level'', \<lambda>s. Number (OxygenStation.current_level s)),
      (''pressure_psi'', \<lambda>s. opt_number (OxygenStation.pressure_psi s)),
      (''flow_rate'', \<lambda>s. opt_number (OxygenStation.flow_rate s)),
      (''status'', \<lambda>s. Text (OxygenStation.status s)),
      (''last_refill'', \<lambda>s. opt_time (OxygenStation.last_refill s)),
      (''next_maintenance'', \<lambda>s. opt_time (OxygenStation.next_maintenance s)),
      (''supplier'', \<lambda>s. opt_text (OxygenStation.supplier s)),
      (''alerts_enabled'', \<lambda>s. Number (if OxygenStation.alerts_enabled s then 1 else 0)),
      (''created_at'', \<lambda>s. opt_time (OxygenStation.created_at s)),
      (''updated_at'', \<lambda>s. opt_time (OxygenStation.updated_at s))]"

definition reading_columns :: "(string \<times> (OxygenReading \<Rightarrow> sql_value)) list" where
  "reading_columns =
     [(''reading_id'', \<lambda>r. Number (of_int (reading_id r))),
      (''station_id'', \<lambda>r. Number (of_int (OxygenReading.station_id r))),
      (''level_liters'', \<lambda>r. Number (OxygenReading.level_liters r)),
      (''pressure_psi'', \<lambda>r. opt_number (OxygenReading.pressure_psi r)),
      (''flow_rate'', \<lambda>r. opt_number (OxygenReading.flow_rate r)),
      (''temperature'', \<lambda>r. opt_number (OxygenReading.temperature r)),
      (''timestamp'', \<lambda>r. opt_time (timestamp r))]"

section \<open>The columns of the schema\<close>

text \<open>
  What the engine does with a value on its way into a column of
  scripts/init\_database.py, in the strict mode that is the default of the server. A
  number for a column \<open>DECIMAL(p,s)\<close> is rounded to \<open>s\<close> decimals, a half away from zero,
  and is rejected when the rounded number needs more than \<open>p\<close> digits. A string for a
  column \<open>VARCHAR(n)\<close> is rejected when it is longer than \<open>n\<close>, unless only blanks are
  beyond \<open>n\<close>, which are cut. A string counts its characters as the list does. A status
  is accepted when it is one of the three names of the ENUM as the schema writes them;
  another spelling that the engine would also accept (another case, an index) is
  reported as rejected. The range of a DATETIME is not modelled. The schema has no
  CHECK constraint, and no column is declared unsigned.
\<close>

definition round_half_away :: "rat \<Rightarrow> int" where
  "round_half_away x = (if x < 0 then - \<lfloor>- x + 1 / 2\<rfloor> else \<lfloor>x + 1 / 2\<rfloor>)"

definition stored_decimal :: "nat \<Rightarrow> rat \<Rightarrow> rat" where
  "stored_decimal s x = of_int (round_half_away (x * 10 ^ s)) / 10 ^ s"

definition decimal_fits :: "nat \<Rightarrow> nat \<Rightarrow> rat \<Rightarrow> bool" where
  "decimal_fits p s x = (\<bar>stored_decimal s x\<bar> < 10 ^ (p - s))"

definition stored_varchar :: "nat \<Rightarrow> string \<Rightarrow> string" where
  "stored_varchar n v = take n v"

definition varchar_fits :: "nat \<Rightarrow> string \<Rightarrow> bool" where
  "varchar_fits n v = list_all (\<lambda>c. c = CHR '' '') (drop n v)"

definition opt_fits :: "('a \<Rightarrow> bool) \<Rightarrow> 'a option \<Rightarrow> bool" where
  "opt_fits ok v = (case v of None \<Rightarrow> True | Some x \<Rightarrow> ok x)"

definition station_status_enum :: "string list" where
  "station_status_enum = [''operational'', ''maintenance'', ''offline'']"

section \<open>The oxygen service: stations and readings\<close>

text \<open>The values of a creation request fit the columns of \<open>oxygen_stations\<close>.\<close>

definition station_fits :: "CreateOxygenStation \<Rightarrow> bool" where
  "station_fits sd =
     (varchar_fits 100 (CreateOxygenStation.station_name sd)
      \<and> varchar_fits 255 (CreateOxygenStation.location sd)
      \<and> decimal_fits 10 2 (CreateOxygenStation.capacity_liters sd)
      \<and> decimal_fits 10 2 (CreateOxygenStation.current_level sd)
      \<and> opt_fits (decimal_fits 8 2) (CreateOxygenStation.pressure_psi sd)
      \<and> opt_fits (decimal_fits 8 2) (CreateOxygenStation.flow_rate sd)
      \<and> CreateOxygenStation.status sd \<in> set station_status_enum
      \<and> opt_fits (varchar_fits 100) (CreateOxygenStation.supplier sd))"

text \<open>The error of a request that does not fit, by the kind of the first column at fault.\<close>

definition station_error :: "CreateOxygenStation \<Rightarrow> sql_error" where
  "station_error sd =
     (if \<not> varchar_fits 100 (CreateOxygenStation.station_name sd) then DataTooLong
      else if \<not> varchar_fits 255 (CreateOxygenStation.location sd) then DataTooLong
      else if \<not> decimal_fits 10 2 (CreateOxygenStation.capacity_liters sd) then OutOfRange
      else if \<not> decimal_fits 10 2 (CreateOxygenStation.current_level sd) then OutOfRange
      else if \<not> opt_fits (decimal_fits 8 2) (CreateOxygenStation.pressure_psi sd) then OutOfRange
      else if \<not> opt_fits (decimal_fits 8 2) (CreateOxygenStation.flow_rate sd) then OutOfRange
      else if CreateOxygenStation.status sd \<notin> set station_status_enum then BadEnumValue
      else DataTooLong)"

text \<open>The row that the INSERT of \<open>create_station\<close> stores.\<close>

definition new_station :: "int \<Rightarrow> datetime \<Rightarrow> CreateOxygenStation \<Rightarrow> OxygenStation" where
  "new_station i now sd =
     \<lparr>OxygenStation.station_id = i,
      OxygenStation.station_name = stored_varchar 100 (CreateOxygenStation.station_name sd),
      OxygenStation.location = stored_varchar 255 (CreateOxygenStation.location sd),
      OxygenStation.capacity_liters = stored_decimal 2 (CreateOxygenStation.capacity_liters sd),
      OxygenStation.current_level = stored_decimal 2 (CreateOxygenStation.current_level sd),
      OxygenStation.pressure_psi = map_option (stored_decimal 2) (CreateOxygenStation.pressure_psi sd),
      OxygenStation.flow_rate = map_option (stored_decimal 2) (CreateOxygenStation.flow_rate sd),
      OxygenStation.status = CreateOxygenStation.status sd,
      OxygenStation.last_refill = CreateOxygenStation.last_refill sd,
      OxygenStation.next_maintenance = CreateOxygenStation.next_maintenance sd,
      OxygenStation.supplier = map_option (stored_varchar 100) (CreateOxygenStation.supplier sd),
      OxygenStation.alerts_enabled = CreateOxygenStation.alerts_enabled sd,
      OxygenStation.created_at = Some now,
      OxygenStation.updated_at = Some now\<rparr>"

text \<open>\<open>execute_insert\<close> on \<open>oxygen_stations\<close>: the new store and \<open>lastrowid\<close>.\<close>

definition insert_station ::
  "database \<Rightarrow> datetime \<Rightarrow> CreateOxygenStation \<Rightarrow> sql_error + database \<times> int" where
  "insert_station db now sd =
     (if \<not> station_fits sd then Inl (station_error sd)
      else Inr (db\<lparr>oxygen_stations := oxygen_stations db @ [new_station (next_station_id db) now sd],
                   next_station_id := next_station_id db + 1\<rparr>,
                next_station_id db))"

definition find_station_by_id :: "database \<Rightarrow> int \<Rightarrow> OxygenStation DatabaseResult" where
  "find_station_by_id db sid =
     (case find (\<lambda>s. OxygenStation.station_id s = sid) (oxygen_stations db) of
        None \<Rightarrow> failed (Message ''Oxygen station not found'')
      | Some station \<Rightarrow> succeeded station)"

definition create_station ::
  "database \<Rightarrow> datetime \<Rightarrow> CreateOxygenStation \<Rightarrow> database \<times> OxygenStation DatabaseResult" where
  "create_station db now station_data =
     (case insert_station db now station_data of
        Inl e \<Rightarrow> (db, failed (Raised (Error e)))
      | Inr (db', new_id) \<Rightarrow>
          (db', \<lparr>success = True,
                 data = DatabaseResult.data (find_station_by_id db' new_id),
                 error = None,
                 insert_id = Some new_id\<rparr>))"

text \<open>The values of a reading fit the columns of \<open>oxygen_readings\<close>.\<close>

definition reading_fits :: "CreateOxygenReading \<Rightarrow> bool" where
  "reading_fits rd =
     (decimal_fits 10 2 (CreateOxygenReading.level_liters rd)
      \<and> opt_fits (decimal_fits 8 2) (CreateOxygenReading.pressure_psi rd)
      \<and> opt_fits (decimal_fits 8 2) (CreateOxygenReading.flow_rate rd)
      \<and> opt_fits (decimal_fits 5 2) (CreateOxygenReading.temperature rd))"

text \<open>The row that the INSERT of \<open>create_reading\<close> stores.\<close>

definition new_reading :: "int \<Rightarrow> datetime \<Rightarrow> CreateOxygenReading \<Rightarrow> OxygenReading" where
  "new_reading i now rd =
     \<lparr>OxygenReading.reading_id = i,
      OxygenReading.station_id = CreateOxygenReading.station_id rd,
      OxygenReading.level_liters = stored_decimal 2 (CreateOxygenReading.level_liters rd),
      OxygenReading.pressure_psi = map_option (stored_decimal 2) (CreateOxygenReading.pressure_psi rd),
      OxygenReading.flow_rate = map_option (stored_decimal 2) (CreateOxygenReading.flow_rate rd),
      OxygenReading.temperature = map_option (stored_decimal 2) (CreateOxygenReading.temperature rd),
      OxygenReading.timestamp = Some now\<rparr>"

definition station_exists :: "database \<Rightarrow> int \<Rightarrow> bool" where
  "station_exists db sid = (\<exists>s \<in> set (oxygen_stations db). OxygenStation.station_id s = sid)"

text \<open>
  \<open>execute_insert\<close> on \<open>oxygen_readings\<close>: the values are checked against their columns
  when the row is built, the foreign key on \<open>station_id\<close> when the row is stored.
\<close>

definition insert_reading ::
  "database \<Rightarrow> datetime \<Rightarrow> CreateOxygenReading \<Rightarrow> sql_error + database \<times> int" where
  "insert_reading db now rd =
     (if \<not> reading_fits rd then Inl OutOfRange
      else if \<not> station_exists db (CreateOxygenReading.station_id rd) then Inl ForeignKeyFails
      else Inr (db\<lparr>oxygen_readings := oxygen_readings db @ [new_reading (next_reading_id db) now rd],
                   next_reading_id := next_reading_id db + 1\<rparr>,
                next_reading_id db))"

text \<open>
  \<open>UPDATE oxygen_stations SET current_level = %s WHERE station_id = %s\<close>, with the level
  as the column stores it. The column \<open>updated_at\<close> is declared \<open>ON UPDATE
  CURRENT_TIMESTAMP\<close>: the engine sets it when the statement changes the row.
\<close>

definition set_current_level :: "datetime \<Rightarrow> int \<Rightarrow> rat \<Rightarrow> OxygenStation \<Rightarrow> OxygenStation" where
  "set_current_level now sid lvl s =
     (if OxygenStation.station_id s = sid \<and> OxygenStation.current_level s \<noteq> lvl
      then s\<lparr>OxygenStation.current_level := lvl, OxygenStation.updated_at := Some now\<rparr>
      else s)"

text \<open>
  \<open>create_reading\<close>: the data of a success is the dictionary with the key \<open>reading_id\<close>.
  The level of the UPDATE is the level of the INSERT and goes into a column of the same
  type, so the UPDATE raises nothing once the INSERT is through.
\<close>

definition create_reading ::
  "database \<Rightarrow> datetime \<Rightarrow> CreateOxygenReading \<Rightarrow> database \<times> int DatabaseResult" where
  "create_reading db now reading_data =
     (case insert_reading db now reading_data of
        Inl e \<Rightarrow> (db, failed (Raised (Error e)))
      | Inr (db', new_id) \<Rightarrow>
          (db'\<lparr>oxygen_stations :=
                 map (set_current_level now (CreateOxygenReading.station_id reading_data)
                        (stored_decimal 2 (CreateOxygenReading.level_liters reading_data)))
                     (oxygen_stations db')\<rparr>,
           \<lparr>success = True, data = Some new_id, error = None, insert_id = Some new_id\<rparr>))"

text \<open>
  \<open>update_station\<close> writes the fields of the request that are not \<open>None\<close>, and
  \<open>updated_at\<close>. The values are checked against their columns when a row is written,
  so a request for a station that is not there raises nothing. \<open>execute_update\<close> returns
  the number of rows that the statement changed.
\<close>

definition no_fields :: "UpdateOxygenStation \<Rightarrow> bool" where
  "no_fields u =
     (UpdateOxygenStation.station_name u = None \<and> UpdateOxygenStation.location u = None
      \<and> UpdateOxygenStation.capacity_liters u = None
      \<and> UpdateOxygenStation.current_level u = None
      \<and> UpdateOxygenStation.pressure_psi u = None \<and> UpdateOxygenStation.flow_rate u = None
      \<and> UpdateOxygenStation.status u = None \<and> UpdateOxygenStation.last_refill u = None
      \<and> UpdateOxygenStation.next_maintenance u = None \<and> UpdateOxygenStation.supplier u = None
      \<and> UpdateOxygenStation.alerts_enabled u = None)"

definition update_fits :: "UpdateOxygenStation \<Rightarrow> bool" where
  "update_fits u =
     (opt_fits (varchar_fits 100) (UpdateOxygenStation.station_name u)
      \<and> opt_fits (varchar_fits 255) (UpdateOxygenStation.location u)
      \<and> opt_fits (decimal_fits 10 2) (UpdateOxygenStation.capacity_liters u)
      \<and> opt_fits (decimal_fits 10 2) (UpdateOxygenStation.current_level u)
      \<and> opt_fits (decimal_fits 8 2) (UpdateOxygenStation.pressure_psi u)
      \<and> opt_fits (decimal_fits 8 2) (UpdateOxygenStation.flow_rate u)
      \<and> opt_fits (\<lambda>v. v \<in> set station_status_enum) (UpdateOxygenStation.status u)
      \<and> opt_fits (varchar_fits 100) (UpdateOxygenStation.supplier u))"

definition update_error :: "UpdateOxygenStation \<Rightarrow> sql_error" where
  "update_error u =
     (if \<not> opt_fits (varchar_fits 100) (UpdateOxygenStation.station_name u) then DataTooLong
      else if \<not> opt_fits (varchar_fits 255) (UpdateOxygenStation.location u) then DataTooLong
      else if \<not> opt_fits (decimal_fits 10 2) (UpdateOxygenStation.capacity_liters u)
        then OutOfRange
      else if \<not> opt_fits (decimal_fits 10 2) (UpdateOxygenStation.current_level u)
        then OutOfRange
      else if \<not> opt_fits (decimal_fits 8 2) (UpdateOxygenStation.pressure_psi u) then OutOfRange
      else if \<not> opt_fits (decimal_fits 8 2) (UpdateOxygenStation.flow_rate u) then OutOfRange
      else if \<not> opt_fits (\<lambda>v. v \<in> set station_status_enum) (UpdateOxygenStation.status u)
        then BadEnumValue
      else DataTooLong)"

definition set_or_keep :: "'a option \<Rightarrow> 'a \<Rightarrow> 'a" where
  "set_or_keep v old = (case v of None \<Rightarrow> old | Some x \<Rightarrow> x)"

definition set_or_keep_opt :: "'a option \<Rightarrow> 'a option \<Rightarrow> 'a option" where
  "set_or_keep_opt v old = (case v of None \<Rightarrow> old | Some x \<Rightarrow> Some x)"

definition apply_update :: "datetime \<Rightarrow> UpdateOxygenStation \<Rightarrow> OxygenStation \<Rightarrow> OxygenStation" where
  "apply_update now u s =
     s\<lparr>OxygenStation.station_name :=
         set_or_keep (map_option (stored_varchar 100) (UpdateOxygenStation.station_name u))
           (OxygenStation.station_name s),
       OxygenStation.location :=
         set_or_keep (map_option (stored_varchar 255) (UpdateOxygenStation.location u))
           (OxygenStation.location s),
       OxygenStation.capacity_liters :=
         set_or_keep (map_option (stored_decimal 2) (UpdateOxygenStation.capacity_liters u))
           (OxygenStation.capacity_liters s),
       OxygenStation.current_level :=
         set_or_keep (map_option (stored_decimal 2) (UpdateOxygenStation.current_level u))
           (OxygenStation.current_level s),
       OxygenStation.pressure_psi :=
         set_or_keep_opt (map_option (stored_decimal 2) (UpdateOxygenStation.pressure_psi u))
           (OxygenStation.pressure_psi s),
       OxygenStation.flow_rate :=
         set_or_keep_opt (map_option (stored_decimal 2) (UpdateOxygenStation.flow_rate u))
           (OxygenStation.flow_rate s),
       OxygenStation.status :=
         set_or_keep (UpdateOxygenStation.status u) (OxygenStation.status s),
       OxygenStation.last_refill :=
         set_or_keep_opt (UpdateOxygenStation.last_refill u) (OxygenStation.last_refill s),
       OxygenStation.next_maintenance :=
         set_or_keep_opt (UpdateOxygenStation.next_maintenance u)
           (OxygenStation.next_maintenance s),
       OxygenStation.supplier :=
         set_or_keep_opt (map_option (stored_varchar 100) (UpdateOxygenStation.supplier u))
           (OxygenStation.supplier s),
       OxygenStation.alerts_enabled :=
         set_or_keep (UpdateOxygenStation.alerts_enabled u) (OxygenStation.alerts_enabled s),
       OxygenStation.updated_at := Some now\<rparr>"

definition update_rows :: "datetime \<Rightarrow> int \<Rightarrow> UpdateOxygenStation \<Rightarrow> OxygenStation list \<Rightarrow> OxygenStation list" where
  "update_rows now sid u rows =
     map (\<lambda>s. if OxygenStation.station_id s = sid then apply_update now u s else s) rows"

definition update_station ::
  "database \<Rightarrow> datetime \<Rightarrow> int \<Rightarrow> UpdateOxygenStation
     \<Rightarrow> database \<times> OxygenStation DatabaseResult" where
  "update_station db now sid update_data =
     (if no_fields update_data then (db, failed (Message ''No fields to update''))
      else if \<not> station_exists db sid
        then (db, failed (Message ''Oxygen station not found or no changes made''))
      else if \<not> update_fits update_data
        then (db, failed (Raised (Error (update_error update_data))))
      else if update_rows now sid update_data (oxygen_stations db) = oxygen_stations db
        then (db, failed (Message ''Oxygen station not found or no changes made''))
      else (db\<lparr>oxygen_stations := update_rows now sid update_data (oxygen_stations db)\<rparr>,
            \<lparr>success = True,
             data = DatabaseResult.data
                      (find_station_by_id
                         (db\<lparr>oxygen_stations :=
                               update_rows now sid update_data (oxygen_stations db)\<rparr>) sid),
             error = None,
             insert_id = None\<rparr>))"

section \<open>The oxygen service: lists and statistics\<close>

text \<open>
  The \<open>WHERE\<close> clause that \<open>find_all_stations\<close> builds. A filter field is used when it
  is truthy in Python: not \<open>None\<close>, not the empty string, not zero.
\<close>

definition station_matches :: "collation \<Rightarrow> OxygenStationFilter \<Rightarrow> OxygenStation \<Rightarrow> bool" where
  "station_matches co f s =
     ((case OxygenStationFilter.status f of
         None \<Rightarrow> True
       | Some v \<Rightarrow> v = [] \<or> str_eq co (OxygenStation.status s) v)
      \<and> (case OxygenStationFilter.location f of
            None \<Rightarrow> True
          | Some v \<Rightarrow> v = [] \<or> str_like co (OxygenStation.location s) (''%'' @ v @ ''%''))
      \<and> (case low_level_threshold f of
            None \<Rightarrow> True
          | Some t \<Rightarrow>
              t = 0 \<or> is_true (sql_less (sql_div (OxygenStation.current_level s)
                                                  (OxygenStation.capacity_liters s))
                                         (Some (t / 100)))))"

definition default_filter :: OxygenStationFilter where
  "default_filter = \<lparr>OxygenStationFilter.status = None, OxygenStationFilter.location = None,
                     low_level_threshold = None\<rparr>"

definition default_pagination :: PaginationParams where
  "default_pagination = \<lparr>PaginationParams.page = 1, PaginationParams.limit = 50,
                         sort_by = ''id'', sort_order = ''ASC''\<rparr>"

text \<open>
  The tail shared by \<open>find_all_stations\<close> and \<open>get_readings_for_station\<close>: the count
  query, the data query, then the number of pages, whose division raises when the
  limit is zero.
\<close>

definition paginate ::
  "collation \<Rightarrow> (string \<Rightarrow> ('a \<Rightarrow> sql_value) option) \<Rightarrow> PaginationParams \<Rightarrow> 'a list
     \<Rightarrow> 'a PaginatedResult DatabaseResult" where
  "paginate co columns p rows =
     (let total = int (length rows) in
      case select_page co columns p rows of
        Inl e \<Rightarrow> failed (Raised (Error e))
      | Inr page_rows \<Rightarrow>
          if PaginationParams.limit p = 0 then failed (Raised ZeroDivisionError)
          else succeeded
                 \<lparr>PaginatedResult.data = page_rows,
                  PaginatedResult.total = total,
                  PaginatedResult.page = PaginationParams.page p,
                  PaginatedResult.limit = PaginationParams.limit p,
                  PaginatedResult.total_pages =
                    (total + PaginationParams.limit p - 1) div PaginationParams.limit p\<rparr>)"

definition matching_stations ::
  "collation \<Rightarrow> database \<Rightarrow> OxygenStationFilter \<Rightarrow> OxygenStation list" where
  "matching_stations co db f = filter (station_matches co f) (oxygen_stations db)"

definition find_all_stations ::
  "collation \<Rightarrow> database \<Rightarrow> OxygenStationFilter option \<Rightarrow> PaginationParams option
     \<Rightarrow> OxygenStation PaginatedResult DatabaseResult" where
  "find_all_stations co db filters pagination =
     (let f = (case filters of None \<Rightarrow> default_filter | Some f \<Rightarrow> f);
          p = (case pagination of None \<Rightarrow> default_pagination | Some p \<Rightarrow> p)
      in paginate co (map_of station_columns) p (matching_stations co db f))"

definition readings_of :: "database \<Rightarrow> int \<Rightarrow> OxygenReading list" where
  "readings_of db sid = filter (\<lambda>r. OxygenReading.station_id r = sid) (oxygen_readings db)"

definition get_readings_for_station ::
  "collation \<Rightarrow> database \<Rightarrow> int \<Rightarrow> PaginationParams option
     \<Rightarrow> OxygenReading PaginatedResult DatabaseResult" where
  "get_readings_for_station co db sid pagination =
     (let p = (case pagination of
                 None \<Rightarrow> default_pagination\<lparr>sort_by := ''timestamp'', sort_order := ''DESC''\<rparr>
               | Some p \<Rightarrow> p)
      in paginate co (map_of reading_columns) p (readings_of db sid))"

text \<open>The rows a result carries; none when the call failed.\<close>

definition result_rows :: "'a PaginatedResult DatabaseResult \<Rightarrow> 'a list" where
  "result_rows r =
     (case DatabaseResult.data r of None \<Rightarrow> [] | Some pr \<Rightarrow> PaginatedResult.data pr)"

text \<open>
  The aggregates of \<open>get_statistics\<close>. \<open>SUM\<close> and \<open>AVG\<close> are NULL when there is no value;
  \<open>AVG\<close> and \<open>COUNT(CASE ...)\<close> skip the rows whose expression is NULL, which is the case
  of a ratio with capacity zero. The status of a row is a value of the ENUM, so its
  comparison with one of the three names is the equality of strings.

  The numbers that \<open>get_statistics\<close> returns are rounded on the way: the engine divides
  two decimals to a number of digits of its own, \<open>AVG\<close> divides the sum of its values by
  their count in the same way, and \<open>float()\<close> takes the nearest number of its format.
  None of the three is in the repository; the model takes them as a parameter. The sums
  and the product with 100 are exact in decimals. The comparison of the alert count is
  made on the quotient as it is.
\<close>

record numerics =
  div_decimal :: "rat \<Rightarrow> rat \<Rightarrow> rat"
  avg_decimal :: "rat \<Rightarrow> nat \<Rightarrow> rat"
  py_float :: "rat \<Rightarrow> rat"

definition sql_sum :: "rat list \<Rightarrow> rat option" where
  "sql_sum vs = (if vs = [] then None else Some (sum_list vs))"

definition non_null :: "'a option list \<Rightarrow> 'a list" where
  "non_null vs = concat (map (\<lambda>v. case v of None \<Rightarrow> [] | Some x \<Rightarrow> [x]) vs)"

definition sql_avg :: "numerics \<Rightarrow> rat option list \<Rightarrow> rat option" where
  "sql_avg nu vs =
     (if non_null vs = [] then None
      else Some (avg_decimal nu (sum_list (non_null vs)) (length (non_null vs))))"

definition count_where :: "('a \<Rightarrow> bool option) \<Rightarrow> 'a list \<Rightarrow> int" where
  "count_where c rows = int (length (filter (\<lambda>r. is_true (c r)) rows))"

definition fill_ratio :: "OxygenStation \<Rightarrow> rat option" where
  "fill_ratio s = sql_div (OxygenStation.current_level s) (OxygenStation.capacity_liters s)"

text \<open>The quotient \<open>current_level / capacity_liters\<close> as the engine returns it.\<close>

definition decimal_ratio :: "numerics \<Rightarrow> OxygenStation \<Rightarrow> rat option" where
  "decimal_ratio nu s =
     (if OxygenStation.capacity_liters s = 0 then None
      else Some (div_decimal nu (OxygenStation.current_level s)
                   (OxygenStation.capacity_liters s)))"

text \<open>
  \<open>float(x or 0)\<close>: a NULL aggregate and a zero are falsy and become the float of the
  integer 0, which is zero; any other number goes through \<open>float()\<close>.
\<close>

definition float_or_zero :: "numerics \<Rightarrow> rat option \<Rightarrow> rat" where
  "float_or_zero nu v =
     (case v of None \<Rightarrow> 0 | Some q \<Rightarrow> if q = 0 then 0 else py_float nu q)"

definition get_statistics :: "numerics \<Rightarrow> database \<Rightarrow> OxygenStatusSummary DatabaseResult" where
  "get_statistics nu db =
     (let rows = oxygen_stations db in
      succeeded
        \<lparr>total_stations = int (length rows),
         operational_stations =
           count_where (\<lambda>s. Some (OxygenStation.status s = ''operational'')) rows,
         maintenance_stations =
           count_where (\<lambda>s. Some (OxygenStation.status s = ''maintenance'')) rows,
         offline_stations =
           count_where (\<lambda>s. Some (OxygenStation.status s = ''offline'')) rows,
         total_capacity =
           float_or_zero nu (sql_sum (map OxygenStation.capacity_liters rows)),
         total_current_level =
           float_or_zero nu (sql_sum (map OxygenStation.current_level rows)),
         average_fill_percentage =
           float_or_zero nu (sql_avg nu (map (\<lambda>s. sql_mul (decimal_ratio nu s) 100) rows)),
         low_level_alerts =
           count_where (\<lambda>s. sql_less (fill_ratio s) (Some (2 / 10))) rows\<rparr>)"

section \<open>The statement texts\<close>

text \<open>
  The text of the data queries, as the f-strings of the service build it; the white
  space between the parts is written as one blank.
\<close>

definition where_conditions :: "OxygenStationFilter \<Rightarrow> string list" where
  "where_conditions f =
     (if OxygenStationFilter.status f \<in> {None, Some []} then [] else [''status = %s''])
     @ (if OxygenStationFilter.location f \<in> {None, Some []} then [] else [''location LIKE %s''])
     @ (if low_level_threshold f \<in> {None, Some 0} then []
        else [''(current_level / capacity_liters) < %s''])"

fun join :: "string \<Rightarrow> string list \<Rightarrow> string" where
  "join sep [] = []"
| "join sep [x] = x"
| "join sep (x # y # ys) = x @ sep @ join sep (y # ys)"

definition where_clause :: "OxygenStationFilter \<Rightarrow> string" where
  "where_clause f =
     (if where_conditions f = [] then [] else ''WHERE '' @ join '' AND '' (where_conditions f))"

definition stations_data_query :: "OxygenStationFilter \<Rightarrow> PaginationParams \<Rightarrow> string" where
  "stations_data_query f p =
     ''SELECT * FROM oxygen_stations '' @ where_clause f
       @ '' ORDER BY '' @ sort_by p @ '' '' @ sort_order p @ '' LIMIT %s OFFSET %s''"

definition readings_data_query :: "PaginationParams \<Rightarrow> string" where
  "readings_data_query p =
     ''SELECT * FROM oxygen_readings WHERE station_id = %s''
       @ '' ORDER BY '' @ sort_by p @ '' '' @ sort_order p @ '' LIMIT %s OFFSET %s''"

section \<open>The routes of app.py\<close>

text \<open>
  A route gets the arguments of the request after their conversion: a missing
  argument is \<open>None\<close>. A request whose \<open>page\<close> or \<open>limit\<close> is no number, or whose body
  lacks a field of the dataclass, ends in the 500 of the route's own \<open>except\<close> and is
  not modelled. The answer is the JSON body and the status code.
\<close>

record list_args =
  arg_status :: "string option"
  arg_location :: "string option"
  arg_low_level_threshold :: "rat option"
  arg_page :: "int option"
  arg_limit :: "int option"
  arg_sort_by :: "string option"
  arg_sort_order :: "string option"

record 'a response =
  code :: int
  body_success :: bool
  body_data :: "'a option"
  body_error :: "failure option"
  body_insert_id :: "int option"

definition or_default :: "'a option \<Rightarrow> 'a \<Rightarrow> 'a" where
  "or_default v d = (case v of None \<Rightarrow> d | Some x \<Rightarrow> x)"

definition error_response :: "int \<Rightarrow> failure option \<Rightarrow> 'a response" where
  "error_response c e =
     \<lparr>code = c, body_success = False, body_data = None, body_error = e,
      body_insert_id = None\<rparr>"

definition stations_filter :: "list_args \<Rightarrow> OxygenStationFilter" where
  "stations_filter a =
     \<lparr>OxygenStationFilter.status = arg_status a,
      OxygenStationFilter.location = arg_location a,
      low_level_threshold = arg_low_level_threshold a\<rparr>"

definition stations_pagination :: "list_args \<Rightarrow> PaginationParams" where
  "stations_pagination a =
     \<lparr>PaginationParams.page = or_default (arg_page a) 1,
      PaginationParams.limit = or_default (arg_limit a) 50,
      sort_by = or_default (arg_sort_by a) ''station_name'',
      sort_order = or_default (arg_sort_order a) ''ASC''\<rparr>"

definition readings_pagination :: "list_args \<Rightarrow> PaginationParams" where
  "readings_pagination a =
     \<lparr>PaginationParams.page = or_default (arg_page a) 1,
      PaginationParams.limit = or_default (arg_limit a) 50,
      sort_by = or_default (arg_sort_by a) ''timestamp'',
      sort_order = or_default (arg_sort_order a) ''DESC''\<rparr>"

definition list_response :: "'a PaginatedResult DatabaseResult \<Rightarrow> 'a PaginatedResult response" where
  "list_response result =
     (if success result
      then \<lparr>code = 200, body_success = True, body_data = DatabaseResult.data result,
            body_error = None, body_insert_id = None\<rparr>
      else error_response 400 (error result))"

definition get_oxygen_stations ::
  "collation \<Rightarrow> database \<Rightarrow> list_args \<Rightarrow> OxygenStation PaginatedResult response" where
  "get_oxygen_stations co db a =
     list_response (find_all_stations co db (Some (stations_filter a))
                      (Some (stations_pagination a)))"

definition get_oxygen_readings ::
  "collation \<Rightarrow> database \<Rightarrow> int \<Rightarrow> list_args \<Rightarrow> OxygenReading PaginatedResult response" where
  "get_oxygen_readings co db sid a =
     list_response (get_readings_for_station co db sid (Some (readings_pagination a)))"

definition create_oxygen_station ::
  "database \<Rightarrow> datetime \<Rightarrow> CreateOxygenStation \<Rightarrow> database \<times> OxygenStation response" where
  "create_oxygen_station db now station_data =
     (case create_station db now station_data of
        (db', result) \<Rightarrow>
          (db', if success result
                then (if DatabaseResult.data result = None
                      then error_response 500 (Some (Message ''AttributeError''))
                      else \<lparr>code = 201, body_success = True,
                            body_data = DatabaseResult.data result, body_error = None,
                            body_insert_id = insert_id result\<rparr>)
                else error_response 400 (error result)))"

text \<open>The statements the two list routes send for a request.\<close>

definition get_oxygen_stations_query :: "list_args \<Rightarrow> string" where
  "get_oxygen_stations_query a =
     stations_data_query (stations_filter a) (stations_pagination a)"

definition get_oxygen_readings_query :: "list_args \<Rightarrow> string" where
  "get_oxygen_readings_query a = readings_data_query (readings_pagination a)"

section \<open>Reference definitions and sample data\<close>

text \<open>
  The fill percentage pooled over the stations, which the specification sets against
  the mean of the percentages of the stations.
\<close>

definition spec_pooled_percentage :: "OxygenStation list \<Rightarrow> rat" where
  "spec_pooled_percentage rows =
     sum_list (map OxygenStation.current_level rows)
       / sum_list (map OxygenStation.capacity_liters rows) * 100"

definition fill_percentage :: "OxygenStation \<Rightarrow> rat" where
  "fill_percentage s = OxygenStation.current_level s / OxygenStation.capacity_liters s * 100"

text \<open>The foreign key of \<open>oxygen_readings\<close>: every reading belongs to a station of the store.\<close>

definition foreign_key_holds :: "database \<Rightarrow> bool" where
  "foreign_key_holds db =
     (\<forall>r \<in> set (oxygen_readings db). station_exists db (OxygenReading.station_id r))"

text \<open>A collation for the examples: comparison by bytes, \<open>LIKE\<close> with its two wildcards.\<close>

fun like_match :: "string \<Rightarrow> string \<Rightarrow> bool" where
  "like_match [] v = (v = [])"
| "like_match (p # ps) [] = (p = CHR ''%'' \<and> like_match ps [])"
| "like_match (p # ps) (c # w) =
     (if p = CHR ''%'' then like_match ps (c # w) \<or> like_match (p # ps) w
      else (p = CHR ''_'' \<or> p = c) \<and> like_match ps w)"

fun bytes_le :: "string \<Rightarrow> string \<Rightarrow> bool" where
  "bytes_le [] t = True"
| "bytes_le (c # s) [] = False"
| "bytes_le (c # s) (d # t) = ((of_char c :: nat) < of_char d \<or> (c = d \<and> bytes_le s t))"

definition binary_collation :: collation where
  "binary_collation =
     \<lparr>str_eq = (\<lambda>a b. a = b), str_like = (\<lambda>v p. like_match p v), str_le = bytes_le\<rparr>"

definition sample_station :: "int \<Rightarrow> string \<Rightarrow> rat \<Rightarrow> rat \<Rightarrow> OxygenStation" where
  "sample_station i n cap lvl =
     \<lparr>OxygenStation.station_id = i,
      OxygenStation.station_name = n,
      OxygenStation.location = ''ICU Floor 1'',
      OxygenStation.capacity_liters = cap,
      OxygenStation.current_level = lvl,
      OxygenStation.pressure_psi = None,
      OxygenStation.flow_rate = None,
      OxygenStation.status = ''operational'',
      OxygenStation.last_refill = None,
      OxygenStation.next_maintenance = None,
      OxygenStation.supplier = None,
      OxygenStation.alerts_enabled = True,
      OxygenStation.created_at = Some 0,
      OxygenStation.updated_at = Some 0\<rparr>"

definition sample_db :: "OxygenStation list \<Rightarrow> database" where
  "sample_db rows =
     \<lparr>oxygen_stations = rows, oxygen_readings = [],
      next_station_id = int (length rows) + 1, next_reading_id = 1\<rparr>"

definition sample_request :: "rat \<Rightarrow> CreateOxygenStation" where
  "sample_request cap =
     \<lparr>CreateOxygenStation.station_name = ''Main Station A'',
      CreateOxygenStation.location = ''ICU Floor 1'',
      CreateOxygenStation.capacity_liters = cap,
      CreateOxygenStation.current_level = 0,
      CreateOxygenStation.pressure_psi = None,
      CreateOxygenStation.flow_rate = None,
      CreateOxygenStation.status = ''operational'',
      CreateOxygenStation.last_refill = None,
      CreateOxygenStation.next_maintenance = None,
      CreateOxygenStation.supplier = None,
      CreateOxygenStation.alerts_enabled = True\<rparr>"

definition sample_reading :: "int \<Rightarrow> rat \<Rightarrow> CreateOxygenReading" where
  "sample_reading sid lvl =
     \<lparr>CreateOxygenReading.station_id = sid,
      CreateOxygenReading.level_liters = lvl,
      CreateOxygenReading.pressure_psi = Some 150,
      CreateOxygenReading.flow_rate = None,
      CreateOxygenReading.temperature = None\<rparr>"

text \<open>
  Numerics for the examples: the quotient of a row as it is, the mean rounded to ten
  decimals, \<open>float()\<close> without error; and the numerics that round nothing.
\<close>

definition sample_numerics :: numerics where
  "sample_numerics =
     \<lparr>div_decimal = (\<lambda>a b. a / b),
      avg_decimal = (\<lambda>total n. stored_decimal 10 (total / of_nat n)),
      py_float = (\<lambda>q. q)\<rparr>"

definition exact_numerics :: numerics where
  "exact_numerics =
     \<lparr>div_decimal = (\<lambda>a b. a / b),
      avg_decimal = (\<lambda>total n. total / of_nat n),
      py_float = (\<lambda>q. q)\<rparr>"

definition sample_update :: "rat \<Rightarrow> UpdateOxygenStation" where
  "sample_update lvl =
     \<lparr>UpdateOxygenStation.station_name = None,
      UpdateOxygenStation.location = None,
      UpdateOxygenStation.capacity_liters = None,
      UpdateOxygenStation.current_level = Some lvl,
      UpdateOxygenStation.pressure_psi = None,
      UpdateOxygenStation.flow_rate = None,
      UpdateOxygenStation.status = None,
      UpdateOxygenStation.last_refill = None,
      UpdateOxygenStation.next_maintenance = None,
      UpdateOxygenStation.supplier = None,
      UpdateOxygenStation.alerts_enabled = None\<rparr>"

definition sample_args :: "int \<Rightarrow> int \<Rightarrow> string \<Rightarrow> string \<Rightarrow> list_args" where
  "sample_args pg lm sb so =
     \<lparr>arg_status = None, arg_location = None, arg_low_level_threshold = None,
      arg_page = Some pg, arg_limit = Some lm, arg_sort_by = Some sb,
      arg_sort_order = Some so\<rparr>"

section \<open>Properties of the level endpoint\<close>

lemma fetch_one_set_level:
  "fetch_one (map (set_level now sid n) tbl) sid
     = map_option (set_level now sid n) (fetch_one tbl sid)"
  by (induction tbl) (simp_all add: fetch_one_def set_level_def)

lemma status_case_rule:
  assumes "level_station.capacity_liters r > 0"
    and "alert_threshold_low r = Some lo"
    and "alert_threshold_critical r = Some cr"
  shows "status_case n r
           = spec_threshold_rule (of_int n) (of_int (level_station.capacity_liters r)) lo cr"
  using assms
  by (simp add: status_case_def spec_threshold_rule_def level_percentage_def sql_div_def
      sql_mul_def is_true_def)

lemma update_accepted:
  assumes "fetch_one tbl sid = Some st" and "n \<le> level_station.capacity_liters st"
  shows "update_oxygen_level tbl now sid n
           = (map (set_level now sid n) tbl,
              Inr \<lparr>message = ''Oxygen level updated successfully'', new_level_liters = n\<rparr>)"
  using assms by (simp add: update_oxygen_level_def)

lemma fetch_one_station_id:
  "fetch_one tbl sid = Some st \<Longrightarrow> level_station.station_id st = sid"
  by (induction tbl) (auto simp: fetch_one_def split: if_splits)

text \<open>
  C2. When a level update is accepted for a station with a capacity above zero and both
  thresholds configured, the call succeeds and the status stored for the station is the
  one the threshold rule gives for the new level: critical when the level is at most the
  critical threshold, expressed as a percentage of the capacity, else low when it is at
  most the low threshold, else normal.
\<close>

theorem status_derived_on_level_update:
  assumes "fetch_one tbl sid = Some st"
    and "level_station.capacity_liters st > 0"
    and "alert_threshold_low st = Some lo"
    and "alert_threshold_critical st = Some cr"
    and "n \<le> level_station.capacity_liters st"
  shows "snd (update_oxygen_level tbl now sid n)
           = Inr \<lparr>message = ''Oxygen level updated successfully'', new_level_liters = n\<rparr>
         \<and> map_option level_station.status
              (fetch_one (fst (update_oxygen_level tbl now sid n)) sid)
           = Some (spec_threshold_rule (of_int n)
                     (of_int (level_station.capacity_liters st)) lo cr)"
proof -
  have sid: "level_station.station_id st = sid"
    using assms(1) by (rule fetch_one_station_id)
  have upd: "update_oxygen_level tbl now sid n
               = (map (set_level now sid n) tbl,
                  Inr \<lparr>message = ''Oxygen level updated successfully'',
                       new_level_liters = n\<rparr>)"
    using assms(1,5) by (rule update_accepted)
  have "fetch_one (map (set_level now sid n) tbl) sid = Some (set_level now sid n st)"
    using assms(1) by (simp add: fetch_one_set_level)
  moreover have "level_station.status (set_level now sid n st) = status_case n st"
    using sid by (simp add: set_level_def)
  moreover have "status_case n st
                   = spec_threshold_rule (of_int n)
                       (of_int (level_station.capacity_liters st)) lo cr"
    using assms(2,3,4) by (rule status_case_rule)
  ultimately show ?thesis
    using upd by simp
qed

theorem status_derived_on_level_update_witness:
  "status_after [scenario_station] 1 500 = Some ''normal''
   \<and> status_after [scenario_station] 1 140 = Some ''low''
   \<and> status_after [scenario_station] 1 60 = Some ''critical''"
proof -
  have f: "fetch_one [scenario_station] 1 = Some scenario_station"
    by (simp add: fetch_one_def scenario_station_def)
  have c: "level_station.capacity_liters scenario_station > 0"
    by (simp add: scenario_station_def)
  have lo: "alert_threshold_low scenario_station = Some 30"
    by (simp add: scenario_station_def)
  have cr: "alert_threshold_critical scenario_station = Some 15"
    by (simp add: scenario_station_def)
  have cap: "level_station.capacity_liters scenario_station = 500"
    by (simp add: scenario_station_def)
  have "status_after [scenario_station] 1 500 = Some ''normal''"
    using status_derived_on_level_update [OF f c lo cr, of 500 0]
    by (simp add: status_after_def cap spec_threshold_rule_def)
  moreover have "status_after [scenario_station] 1 140 = Some ''low''"
    using status_derived_on_level_update [OF f c lo cr, of 140 0]
    by (simp add: status_after_def cap spec_threshold_rule_def)
  moreover have "status_after [scenario_station] 1 60 = Some ''critical''"
    using status_derived_on_level_update [OF f c lo cr, of 60 0]
    by (simp add: status_after_def cap spec_threshold_rule_def)
  ultimately show ?thesis by simp
qed

text \<open>
  C4. A direct level update of an existing station with a new level above the capacity
  is rejected with status 400 and the message "Level cannot exceed capacity", and the
  table, and with it the level and the status of the station, is unchanged.
\<close>

theorem level_above_capacity_rejected:
  assumes "fetch_one tbl sid = Some st"
    and "n > level_station.capacity_liters st"
  shows "update_oxygen_level tbl now sid n
           = (tbl, Inl \<lparr>status_code = 400, detail = ''Level cannot exceed capacity''\<rparr>)"
  using assms by (simp add: update_oxygen_level_def)

theorem level_above_capacity_rejected_witness:
  "update_oxygen_level [scenario_station] 0 1 600
     = ([scenario_station],
        Inl \<lparr>status_code = 400, detail = ''Level cannot exceed capacity''\<rparr>)"
proof -
  have f: "fetch_one [scenario_station] 1 = Some scenario_station"
    by (simp add: fetch_one_def scenario_station_def)
  have c: "600 > level_station.capacity_liters scenario_station"
    by (simp add: scenario_station_def)
  show ?thesis
    using level_above_capacity_rejected [OF f c, of 0] by simp
qed

section \<open>Ordering and paging\<close>

lemma mset_insert_row: "mset (insert_row le x xs) = add_mset x (mset xs)"
  by (induction xs) auto

lemma mset_sort_rows: "mset (sort_rows le xs) = mset xs"
  unfolding sort_rows_def by (induction xs) (auto simp: mset_insert_row)

lemma length_sort_rows: "length (sort_rows le xs) = length xs"
proof -
  have "size (mset (sort_rows le xs)) = size (mset xs)"
    by (simp only: mset_sort_rows)
  then show ?thesis by simp
qed

lemma concat_pages: "concat (map (\<lambda>k. take l (drop (k * l) xs)) [0..<m]) = take (m * l) xs"
proof (induction m)
  case 0 show ?case by simp
next
  case (Suc m)
  have "Suc m * l = m * l + l" by simp
  then have "take (Suc m * l) xs = take (m * l) xs @ take l (drop (m * l) xs)"
    by (simp only: take_add)
  with Suc show ?case by simp
qed

lemma pages_bounds:
  fixes t l :: int
  assumes "0 < l"
  shows "t \<le> ((t + l - 1) div l) * l" and "((t + l - 1) div l - 1) * l < t"
proof -
  define q where "q = (t + l - 1) div l"
  define r where "r = (t + l - 1) mod l"
  have eq: "t + l - 1 = q * l + r"
    unfolding q_def r_def by simp
  have r: "0 \<le> r" "r < l"
    using assms unfolding r_def by simp_all
  show "t \<le> ((t + l - 1) div l) * l"
    using eq r unfolding q_def [symmetric] by linarith
  have "(q - 1) * l = q * l - l"
    by (simp add: algebra_simps)
  then show "((t + l - 1) div l - 1) * l < t"
    using eq r unfolding q_def [symmetric] by linarith
qed

lemma pages_formula:
  fixes t l :: int
  assumes "0 < l"
  shows "(t + l - 1) div l = \<lceil>rat_of_int t / rat_of_int l\<rceil>"
proof -
  define q where "q = (t + l - 1) div l"
  have up: "t \<le> q * l" and lo: "(q - 1) * l < t"
    using pages_bounds [OF assms, of t] unfolding q_def by simp_all
  have l: "0 < rat_of_int l"
    using assms by simp
  have "rat_of_int t \<le> rat_of_int (q * l)"
    using up by (simp only: of_int_le_iff)
  then have a: "rat_of_int t / rat_of_int l \<le> rat_of_int q"
    using l by (simp add: pos_divide_le_eq)
  have "rat_of_int ((q - 1) * l) < rat_of_int t"
    using lo by (simp only: of_int_less_iff)
  then have b: "rat_of_int q - 1 < rat_of_int t / rat_of_int l"
    using l by (simp add: pos_less_divide_eq)
  have "\<lceil>rat_of_int t / rat_of_int l\<rceil> = q"
    using b a by (rule ceiling_unique)
  then show ?thesis
    unfolding q_def by simp
qed

lemma upto_as_upt: "map g [1..int m] = map (\<lambda>k. g (int k + 1)) [0..<m]"
proof (induction m)
  case 0 show ?case by simp
next
  case (Suc m)
  have "[1..int (Suc m)] = [1..int m] @ [int m + 1]"
    using upto_rec2 [of 1 "int (Suc m)"] by (simp add: add.commute)
  with Suc show ?case by simp
qed

lemma select_page_ok:
  assumes "columns (sort_by p) = Some key"
    and "parse_sort_order (sort_order p) = Some d"
    and "PaginationParams.limit p > 0"
    and "PaginationParams.page p \<ge> 1"
  shows "select_page co columns p rows
           = Inr (take (nat (PaginationParams.limit p))
                    (drop (nat (PaginationParams.page p - 1) * nat (PaginationParams.limit p))
                       (sort_rows (key_le co key d) rows)))"
proof -
  have "0 \<le> (PaginationParams.page p - 1) * PaginationParams.limit p"
    using assms(3,4) by simp
  then have nonneg: "\<not> (PaginationParams.page p - 1) * PaginationParams.limit p < 0"
    by (simp only: not_less)
  have split: "nat ((PaginationParams.page p - 1) * PaginationParams.limit p)
                 = nat (PaginationParams.page p - 1) * nat (PaginationParams.limit p)"
    using assms(3,4) by (simp add: nat_mult_distrib)
  have lim: "\<not> PaginationParams.limit p < 0"
    using assms(3) by simp
  show ?thesis
    by (simp add: select_page_def order_by_def limit_offset_def assms(1,2) nonneg lim split)
qed

lemma paginate_ok:
  assumes "columns (sort_by p) = Some key"
    and "parse_sort_order (sort_order p) = Some d"
    and "PaginationParams.limit p > 0"
    and "PaginationParams.page p \<ge> 1"
  shows "paginate co columns p rows
           = succeeded
               \<lparr>PaginatedResult.data =
                  take (nat (PaginationParams.limit p))
                    (drop (nat (PaginationParams.page p - 1) * nat (PaginationParams.limit p))
                       (sort_rows (key_le co key d) rows)),
                PaginatedResult.total = int (length rows),
                PaginatedResult.page = PaginationParams.page p,
                PaginatedResult.limit = PaginationParams.limit p,
                PaginatedResult.total_pages =
                  (int (length rows) + PaginationParams.limit p - 1)
                    div PaginationParams.limit p\<rparr>"
  using assms(3) select_page_ok [where columns = columns and p = p, OF assms, of co rows]
  by (simp add: paginate_def Let_def)

lemma result_rows_succeeded: "result_rows (succeeded pr) = PaginatedResult.data pr"
  by (simp add: result_rows_def succeeded_def)

lemma pages_concat:
  assumes "columns (sort_by p) = Some key"
    and "parse_sort_order (sort_order p) = Some d"
    and "PaginationParams.limit p > 0"
  shows "concat (map (\<lambda>k. result_rows (paginate co columns (p\<lparr>PaginationParams.page := k\<rparr>) rows))
                   [1..(int (length rows) + PaginationParams.limit p - 1)
                         div PaginationParams.limit p])
           = sort_rows (key_le co key d) rows"
proof -
  define l where "l = PaginationParams.limit p"
  define n where "n = (int (length rows) + l - 1) div l"
  define sorted_rows where "sorted_rows = sort_rows (key_le co key d) rows"
  have l: "0 < l"
    using assms(3) unfolding l_def .
  have cover: "int (length rows) \<le> n * l"
    using pages_bounds(1) [OF l, of "int (length rows)"] unfolding n_def .
  have n0: "0 \<le> n"
  proof (rule ccontr)
    assume "\<not> 0 \<le> n"
    then have "n \<le> - 1" by simp
    then have "n * l \<le> - 1 * l"
      using l by (intro mult_right_mono) simp_all
    then show False
      using cover l by simp
  qed
  have page_k: "result_rows (paginate co columns (p\<lparr>PaginationParams.page := int k + 1\<rparr>) rows)
                  = take (nat l) (drop (k * nat l) sorted_rows)" for k
  proof -
    let ?p = "p\<lparr>PaginationParams.page := int k + 1\<rparr>"
    have "paginate co columns ?p rows
            = succeeded
               \<lparr>PaginatedResult.data =
                  take (nat (PaginationParams.limit ?p))
                    (drop (nat (PaginationParams.page ?p - 1) * nat (PaginationParams.limit ?p))
                       (sort_rows (key_le co key d) rows)),
                PaginatedResult.total = int (length rows),
                PaginatedResult.page = PaginationParams.page ?p,
                PaginatedResult.limit = PaginationParams.limit ?p,
                PaginatedResult.total_pages =
                  (int (length rows) + PaginationParams.limit ?p - 1)
                    div PaginationParams.limit ?p\<rparr>"
      using assms by (intro paginate_ok) simp_all
    then show ?thesis
      by (simp add: result_rows_succeeded l_def sorted_rows_def)
  qed
  have "[1..n] = [1..int (nat n)]"
    using n0 by simp
  then have "concat (map (\<lambda>k. result_rows (paginate co columns (p\<lparr>PaginationParams.page := k\<rparr>) rows)) [1..n])
               = concat (map (\<lambda>k. take (nat l) (drop (k * nat l) sorted_rows)) [0..<nat n])"
    by (simp only: upto_as_upt page_k)
  also have "\<dots> = take (nat n * nat l) sorted_rows"
    by (rule concat_pages)
  also have "\<dots> = sorted_rows"
  proof -
    have "nat n * nat l = nat (n * l)"
      using n0 l by (simp add: nat_mult_distrib)
    moreover have "length sorted_rows \<le> nat (n * l)"
      using cover by (simp add: sorted_rows_def length_sort_rows)
    ultimately show ?thesis by simp
  qed
  finally show ?thesis
    unfolding n_def l_def sorted_rows_def .
qed

section \<open>Properties of the station list\<close>

lemma column_known:
  assumes "sb \<in> fst ` set cols"
  shows "\<exists>key. map_of cols sb = Some key"
  using assms by (metis domIff dom_map_of_conv_image_fst not_Some_eq)

text \<open>
  C7, as amended. For every filter and every pagination input with a limit above zero, a
  page number of at least one, a sort column of the table and a sort direction,
  \<open>find_all_stations\<close> succeeds; its total is the number of all stations that match
  the filter, whatever the page; its number of pages is the total divided by the limit,
  rounded up; and the pages from the first to the last, one after the other, hold the
  matching stations, each as often as the table does.
\<close>

theorem station_pages_cover_filtered_set:
  assumes "PaginationParams.limit p > 0"
    and "PaginationParams.page p \<ge> 1"
    and "sort_by p \<in> fst ` set station_columns"
    and "parse_sort_order (sort_order p) \<noteq> None"
  shows "(\<exists>rows. find_all_stations co db (Some f) (Some p)
            = succeeded
                \<lparr>PaginatedResult.data = rows,
                 PaginatedResult.total = int (length (matching_stations co db f)),
                 PaginatedResult.page = PaginationParams.page p,
                 PaginatedResult.limit = PaginationParams.limit p,
                 PaginatedResult.total_pages =
                   \<lceil>rat_of_int (int (length (matching_stations co db f)))
                      / rat_of_int (PaginationParams.limit p)\<rceil>\<rparr>)
         \<and> mset (concat (map (\<lambda>k. result_rows (find_all_stations co db (Some f)
                                     (Some (p\<lparr>PaginationParams.page := k\<rparr>))))
                     [1..\<lceil>rat_of_int (int (length (matching_stations co db f)))
                           / rat_of_int (PaginationParams.limit p)\<rceil>]))
             = mset (matching_stations co db f)"
proof -
  obtain key where key: "map_of station_columns (sort_by p) = Some key"
    using column_known [OF assms(3)] by blast
  obtain d where d: "parse_sort_order (sort_order p) = Some d"
    using assms(4) by blast
  let ?rows = "matching_stations co db f"
  have pages: "(int (length ?rows) + PaginationParams.limit p - 1) div PaginationParams.limit p
                 = \<lceil>rat_of_int (int (length ?rows)) / rat_of_int (PaginationParams.limit p)\<rceil>"
    using assms(1) by (rule pages_formula)
  have one: "find_all_stations co db (Some f) (Some q)
               = paginate co (map_of station_columns) q ?rows" for q
    by (simp add: find_all_stations_def)
  have "paginate co (map_of station_columns) p ?rows
          = succeeded
              \<lparr>PaginatedResult.data =
                 take (nat (PaginationParams.limit p))
                   (drop (nat (PaginationParams.page p - 1) * nat (PaginationParams.limit p))
                      (sort_rows (key_le co key d) ?rows)),
               PaginatedResult.total = int (length ?rows),
               PaginatedResult.page = PaginationParams.page p,
               PaginatedResult.limit = PaginationParams.limit p,
               PaginatedResult.total_pages =
                 (int (length ?rows) + PaginationParams.limit p - 1)
                   div PaginationParams.limit p\<rparr>"
    using key d assms(1,2) by (rule paginate_ok)
  then have first: "\<exists>rows. find_all_stations co db (Some f) (Some p)
            = succeeded
                \<lparr>PaginatedResult.data = rows,
                 PaginatedResult.total = int (length ?rows),
                 PaginatedResult.page = PaginationParams.page p,
                 PaginatedResult.limit = PaginationParams.limit p,
                 PaginatedResult.total_pages =
                   \<lceil>rat_of_int (int (length ?rows)) / rat_of_int (PaginationParams.limit p)\<rceil>\<rparr>"
    by (simp only: one pages) blast
  have "concat (map (\<lambda>k. result_rows (paginate co (map_of station_columns)
                                         (p\<lparr>PaginationParams.page := k\<rparr>) ?rows))
                  [1..(int (length ?rows) + PaginationParams.limit p - 1)
                        div PaginationParams.limit p])
          = sort_rows (key_le co key d) ?rows"
    using key d assms(1) by (rule pages_concat)
  then have "mset (concat (map (\<lambda>k. result_rows (find_all_stations co db (Some f)
                                     (Some (p\<lparr>PaginationParams.page := k\<rparr>))))
                     [1..\<lceil>rat_of_int (int (length ?rows))
                           / rat_of_int (PaginationParams.limit p)\<rceil>]))
             = mset ?rows"
    by (simp only: one pages mset_sort_rows)
  with first show ?thesis by (rule conjI)
qed

theorem station_pages_cover_filtered_set_witness:
  "mset (concat (map (\<lambda>k. result_rows
                        (find_all_stations binary_collation
                           (sample_db [sample_station 1 ''B'' 500 500, sample_station 2 ''A'' 100 10])
                           (Some default_filter)
                           (Some (stations_pagination (sample_args k 1 ''station_name'' ''ASC'')))))
                  [1..2]))
     = mset [sample_station 1 ''B'' 500 500, sample_station 2 ''A'' 100 10]"
proof -
  let ?db = "sample_db [sample_station 1 ''B'' 500 500, sample_station 2 ''A'' 100 10]"
  let ?p = "stations_pagination (sample_args 1 1 ''station_name'' ''ASC'')"
  have h1: "PaginationParams.limit ?p > 0"
    by (simp add: stations_pagination_def sample_args_def or_default_def)
  have h2: "PaginationParams.page ?p \<ge> 1"
    by (simp add: stations_pagination_def sample_args_def or_default_def)
  have h3: "sort_by ?p \<in> fst ` set station_columns"
    by (simp add: stations_pagination_def sample_args_def or_default_def station_columns_def)
  have h4: "parse_sort_order (sort_order ?p) \<noteq> None"
    by (simp add: stations_pagination_def sample_args_def or_default_def parse_sort_order_def)
  have m: "matching_stations binary_collation ?db default_filter
             = [sample_station 1 ''B'' 500 500, sample_station 2 ''A'' 100 10]"
    by (simp add: matching_stations_def sample_db_def station_matches_def default_filter_def)
  have l: "PaginationParams.limit ?p = 1"
    by (simp add: stations_pagination_def sample_args_def or_default_def)
  have pk: "?p\<lparr>PaginationParams.page := k\<rparr>
              = stations_pagination (sample_args k 1 ''station_name'' ''ASC'')" for k
    by (simp add: stations_pagination_def sample_args_def or_default_def)
  show ?thesis
    using station_pages_cover_filtered_set [OF h1 h2 h3 h4, of binary_collation ?db default_filter]
    by (simp add: m l pk)
qed

text \<open>
  C7 as stated fails. With a limit above zero the call still fails when the sort column
  is no column of the table, as for the default \<open>id\<close> of \<open>PaginationParams\<close>, and when
  the page number is zero, which makes the offset negative: no total is returned.
\<close>

theorem station_pages_counterexample:
  "PaginationParams.limit default_pagination > 0
   \<and> find_all_stations binary_collation (sample_db [sample_station 1 ''A'' 500 500])
        (Some default_filter) (Some default_pagination)
       = failed (Raised (Error UnknownColumn))
   \<and> PaginationParams.limit (stations_pagination (sample_args 0 10 ''station_name'' ''ASC'')) > 0
   \<and> find_all_stations binary_collation (sample_db [sample_station 1 ''A'' 500 500])
        (Some default_filter) (Some (stations_pagination (sample_args 0 10 ''station_name'' ''ASC'')))
       = failed (Raised (Error BadLimit))"
  by (simp add: find_all_stations_def paginate_def select_page_def order_by_def
      limit_offset_def default_pagination_def station_columns_def stations_pagination_def
      sample_args_def or_default_def parse_sort_order_def)

section \<open>Properties of the reading list\<close>

lemma readings_of_missing:
  assumes "\<not> station_exists db sid" and "foreign_key_holds db"
  shows "readings_of db sid = []"
  using assms unfolding readings_of_def foreign_key_holds_def
  by (auto simp: filter_empty_conv)

text \<open>
  C10, as amended. For a station identifier that no station of the store has, in a store
  that keeps the foreign key of the readings, and for a pagination input with a limit
  above zero, a page number of at least one, a sort column of the table and a sort
  direction, \<open>get_readings_for_station\<close> succeeds with no readings, total 0 and 0
  pages, and the route answers 200 with a success body: no not-found error.
\<close>

theorem readings_of_missing_station:
  assumes "\<not> station_exists db sid"
    and "foreign_key_holds db"
    and "PaginationParams.limit p > 0"
    and "PaginationParams.page p \<ge> 1"
    and "sort_by p \<in> fst ` set reading_columns"
    and "parse_sort_order (sort_order p) \<noteq> None"
  shows "get_readings_for_station co db sid (Some p)
           = succeeded
               \<lparr>PaginatedResult.data = [],
                PaginatedResult.total = 0,
                PaginatedResult.page = PaginationParams.page p,
                PaginatedResult.limit = PaginationParams.limit p,
                PaginatedResult.total_pages = 0\<rparr>
         \<and> (\<forall>a. readings_pagination a = p \<longrightarrow>
                code (get_oxygen_readings co db sid a) = 200
                \<and> body_success (get_oxygen_readings co db sid a)
                \<and> body_error (get_oxygen_readings co db sid a) = None)"
proof -
  obtain key where key: "map_of reading_columns (sort_by p) = Some key"
    using column_known [OF assms(5)] by blast
  obtain d where d: "parse_sort_order (sort_order p) = Some d"
    using assms(6) by blast
  have none: "readings_of db sid = []"
    using assms(1,2) by (rule readings_of_missing)
  have pages: "(PaginationParams.limit p - 1) div PaginationParams.limit p = 0"
    using assms(3) by (simp add: div_pos_pos_trivial)
  have "paginate co (map_of reading_columns) p []
          = succeeded
              \<lparr>PaginatedResult.data =
                 take (nat (PaginationParams.limit p))
                   (drop (nat (PaginationParams.page p - 1) * nat (PaginationParams.limit p))
                      (sort_rows (key_le co key d) [])),
               PaginatedResult.total = int (length ([] :: OxygenReading list)),
               PaginatedResult.page = PaginationParams.page p,
               PaginatedResult.limit = PaginationParams.limit p,
               PaginatedResult.total_pages =
                 (int (length ([] :: OxygenReading list)) + PaginationParams.limit p - 1)
                   div PaginationParams.limit p\<rparr>"
    using key d assms(3,4) by (rule paginate_ok)
  then have svc: "get_readings_for_station co db sid (Some p)
           = succeeded
               \<lparr>PaginatedResult.data = [],
                PaginatedResult.total = 0,
                PaginatedResult.page = PaginationParams.page p,
                PaginatedResult.limit = PaginationParams.limit p,
                PaginatedResult.total_pages = 0\<rparr>"
    by (simp add: get_readings_for_station_def none pages sort_rows_def)
  then show ?thesis
    by (simp add: get_oxygen_readings_def list_response_def succeeded_def)
qed

theorem readings_of_missing_station_witness:
  "get_oxygen_readings binary_collation (sample_db [sample_station 1 ''A'' 500 500]) 99
     (sample_args 1 10 ''timestamp'' ''DESC'')
   = \<lparr>code = 200, body_success = True,
      body_data = Some \<lparr>PaginatedResult.data = [], PaginatedResult.total = 0,
                        PaginatedResult.page = 1, PaginatedResult.limit = 10,
                        PaginatedResult.total_pages = 0\<rparr>,
      body_error = None, body_insert_id = None\<rparr>"
proof -
  let ?db = "sample_db [sample_station 1 ''A'' 500 500]"
  let ?a = "sample_args 1 10 ''timestamp'' ''DESC''"
  let ?p = "readings_pagination ?a"
  have h1: "\<not> station_exists ?db 99"
    by (simp add: station_exists_def sample_db_def sample_station_def)
  have h2: "foreign_key_holds ?db"
    by (simp add: foreign_key_holds_def sample_db_def)
  have h3: "PaginationParams.limit ?p > 0"
    by (simp add: readings_pagination_def sample_args_def or_default_def)
  have h4: "PaginationParams.page ?p \<ge> 1"
    by (simp add: readings_pagination_def sample_args_def or_default_def)
  have h5: "sort_by ?p \<in> fst ` set reading_columns"
    by (simp add: readings_pagination_def sample_args_def or_default_def reading_columns_def)
  have h6: "parse_sort_order (sort_order ?p) \<noteq> None"
    by (simp add: readings_pagination_def sample_args_def or_default_def parse_sort_order_def)
  have pg: "PaginationParams.page ?p = 1" and lm: "PaginationParams.limit ?p = 10"
    by (simp_all add: readings_pagination_def sample_args_def or_default_def)
  show ?thesis
    using readings_of_missing_station [OF h1 h2 h3 h4 h5 h6, of binary_collation]
    by (simp add: get_oxygen_readings_def list_response_def succeeded_def pg lm)
qed

text \<open>
  C10 as stated fails for a limit of zero: both queries run, the division for the number
  of pages raises, the service returns a failure and the route answers 400.
\<close>

theorem readings_of_missing_station_counterexample:
  "\<not> station_exists (sample_db []) 99
   \<and> get_readings_for_station binary_collation (sample_db []) 99
        (Some (readings_pagination (sample_args 1 0 ''timestamp'' ''DESC'')))
       = failed (Raised ZeroDivisionError)
   \<and> code (get_oxygen_readings binary_collation (sample_db []) 99
              (sample_args 1 0 ''timestamp'' ''DESC'')) = 400"
  by (simp add: station_exists_def sample_db_def get_oxygen_readings_def list_response_def
      get_readings_for_station_def readings_of_def paginate_def select_page_def order_by_def
      limit_offset_def reading_columns_def readings_pagination_def sample_args_def
      or_default_def parse_sort_order_def sort_rows_def failed_def error_response_def)

section \<open>Properties of the columns\<close>

lemma floor_half: "\<lfloor>1 / 2 :: rat\<rfloor> = 0"
  by (rule floor_unique) simp_all

lemma round_half_away_of_int: "round_half_away (of_int k) = k"
proof -
  have a: "\<lfloor>rat_of_int k + 1 / 2\<rfloor> = k"
    by (rule floor_unique) simp_all
  have b: "\<lfloor>- rat_of_int k + 1 / 2\<rfloor> = - k"
    by (rule floor_unique) simp_all
  show ?thesis
    by (simp add: round_half_away_def a b floor_half)
qed

lemma stored_decimal_of_int: "stored_decimal s (of_int k) = of_int k"
proof -
  have "rat_of_int k * 10 ^ s = rat_of_int (k * 10 ^ s)"
    by simp
  then have "round_half_away (rat_of_int k * 10 ^ s) = k * 10 ^ s"
    by (simp only: round_half_away_of_int)
  then show ?thesis
    by (simp add: stored_decimal_def)
qed

lemma stored_decimal_numeral [simp]:
  "stored_decimal s (numeral n) = numeral n"
  "stored_decimal s (- numeral n) = - numeral n"
  "stored_decimal s 0 = 0"
  "stored_decimal s 1 = 1"
  using stored_decimal_of_int [of s "numeral n"] stored_decimal_of_int [of s "- numeral n"]
    stored_decimal_of_int [of s 0] stored_decimal_of_int [of s 1]
  by simp_all

lemma stored_decimal_nonpositive:
  assumes "x \<le> 0"
  shows "stored_decimal s x \<le> 0"
proof (cases "x = 0")
  case True
  then show ?thesis
    using stored_decimal_of_int [of s 0] by simp
next
  case False
  then have neg: "x * 10 ^ s < 0"
    using assms by (simp add: mult_less_0_iff)
  then have "0 \<le> - (x * 10 ^ s) + 1 / 2"
    by simp
  then have "0 \<le> \<lfloor>- (x * 10 ^ s) + 1 / 2\<rfloor>"
    by (simp only: zero_le_floor)
  then have "round_half_away (x * 10 ^ s) \<le> 0"
    using neg by (simp add: round_half_away_def)
  then have "rat_of_int (round_half_away (x * 10 ^ s)) \<le> 0"
    by simp
  then show ?thesis
    by (simp add: stored_decimal_def divide_le_0_iff)
qed

section \<open>Properties of reading ingestion\<close>

lemma set_current_level_fields:
  "OxygenStation.station_id (set_current_level now sid lvl s) = OxygenStation.station_id s"
  "OxygenStation.status (set_current_level now sid lvl s) = OxygenStation.status s"
  "OxygenStation.capacity_liters (set_current_level now sid lvl s)
     = OxygenStation.capacity_liters s"
  by (simp_all add: set_current_level_def)

lemma set_current_level_hit:
  "OxygenStation.station_id s = sid
     \<Longrightarrow> OxygenStation.current_level (set_current_level now sid lvl s) = lvl"
  by (simp add: set_current_level_def)

lemma set_current_level_miss:
  "OxygenStation.station_id s \<noteq> sid \<Longrightarrow> set_current_level now sid lvl s = s"
  by (simp add: set_current_level_def)

lemma create_reading_accepted:
  assumes "station_exists db (CreateOxygenReading.station_id rd)" and "reading_fits rd"
  shows "create_reading db now rd
           = (db\<lparr>oxygen_readings := oxygen_readings db @ [new_reading (next_reading_id db) now rd],
                 next_reading_id := next_reading_id db + 1,
                 oxygen_stations :=
                   map (set_current_level now (CreateOxygenReading.station_id rd)
                          (stored_decimal 2 (CreateOxygenReading.level_liters rd)))
                       (oxygen_stations db)\<rparr>,
              \<lparr>success = True, data = Some (next_reading_id db), error = None,
               insert_id = Some (next_reading_id db)\<rparr>)"
  using assms by (simp add: create_reading_def insert_reading_def)

lemma levels_after_reading:
  assumes "station_exists db (CreateOxygenReading.station_id rd)" and "reading_fits rd"
  shows "\<forall>s \<in> set (oxygen_stations (fst (create_reading db now rd))).
           OxygenStation.station_id s = CreateOxygenReading.station_id rd
             \<longrightarrow> OxygenStation.current_level s
                   = stored_decimal 2 (CreateOxygenReading.level_liters rd)"
  by (auto simp: create_reading_accepted [OF assms] set_current_level_fields
      set_current_level_hit)

text \<open>
  C3, as amended. For every existing station and every reading whose values fit the
  columns of the table, \<open>create_reading\<close> succeeds and appends, after the rows already
  there, one reading row: the new identifier, the station, the level, the pressure, the
  flow rate and the temperature of the request, each number rounded to the two decimals
  of its column, and the time of the call. It sets the current level of the station to
  that level. Every other station is kept as it is, and the status of every station,
  the one of the reading included, is the status it had before the call.
\<close>

theorem reading_overwrites_level_only:
  assumes "station_exists db (CreateOxygenReading.station_id rd)"
    and "reading_fits rd"
  shows "snd (create_reading db now rd)
           = \<lparr>success = True, data = Some (next_reading_id db), error = None,
              insert_id = Some (next_reading_id db)\<rparr>
         \<and> oxygen_readings (fst (create_reading db now rd))
             = oxygen_readings db
               @ [\<lparr>OxygenReading.reading_id = next_reading_id db,
                   OxygenReading.station_id = CreateOxygenReading.station_id rd,
                   OxygenReading.level_liters
                     = stored_decimal 2 (CreateOxygenReading.level_liters rd),
                   OxygenReading.pressure_psi
                     = map_option (stored_decimal 2) (CreateOxygenReading.pressure_psi rd),
                   OxygenReading.flow_rate
                     = map_option (stored_decimal 2) (CreateOxygenReading.flow_rate rd),
                   OxygenReading.temperature
                     = map_option (stored_decimal 2) (CreateOxygenReading.temperature rd),
                   OxygenReading.timestamp = Some now\<rparr>]
         \<and> (\<forall>s \<in> set (oxygen_stations (fst (create_reading db now rd))).
               OxygenStation.station_id s = CreateOxygenReading.station_id rd
                 \<longrightarrow> OxygenStation.current_level s
                       = stored_decimal 2 (CreateOxygenReading.level_liters rd))
         \<and> (\<forall>s \<in> set (oxygen_stations db).
               OxygenStation.station_id s \<noteq> CreateOxygenReading.station_id rd
                 \<longrightarrow> s \<in> set (oxygen_stations (fst (create_reading db now rd))))
         \<and> map OxygenStation.status (oxygen_stations (fst (create_reading db now rd)))
             = map OxygenStation.status (oxygen_stations db)
         \<and> map OxygenStation.station_id (oxygen_stations (fst (create_reading db now rd)))
             = map OxygenStation.station_id (oxygen_stations db)"
proof -
  let ?sid = "CreateOxygenReading.station_id rd"
  let ?lvl = "stored_decimal 2 (CreateOxygenReading.level_liters rd)"
  let ?upd = "set_current_level now ?sid ?lvl"
  note acc = create_reading_accepted [OF assms, of now]
  have st: "oxygen_stations (fst (create_reading db now rd)) = map ?upd (oxygen_stations db)"
    by (simp add: acc)
  have a: "snd (create_reading db now rd)
             = \<lparr>success = True, data = Some (next_reading_id db), error = None,
                insert_id = Some (next_reading_id db)\<rparr>"
    by (simp add: acc)
  have b: "oxygen_readings (fst (create_reading db now rd))
             = oxygen_readings db
               @ [\<lparr>OxygenReading.reading_id = next_reading_id db,
                   OxygenReading.station_id = CreateOxygenReading.station_id rd,
                   OxygenReading.level_liters
                     = stored_decimal 2 (CreateOxygenReading.level_liters rd),
                   OxygenReading.pressure_psi
                     = map_option (stored_decimal 2) (CreateOxygenReading.pressure_psi rd),
                   OxygenReading.flow_rate
                     = map_option (stored_decimal 2) (CreateOxygenReading.flow_rate rd),
                   OxygenReading.temperature
                     = map_option (stored_decimal 2) (CreateOxygenReading.temperature rd),
                   OxygenReading.timestamp = Some now\<rparr>]"
    by (simp add: acc new_reading_def)
  have c: "\<forall>s \<in> set (map ?upd (oxygen_stations db)).
             OxygenStation.station_id s = ?sid \<longrightarrow> OxygenStation.current_level s = ?lvl"
    by (auto simp: set_current_level_fields set_current_level_hit)
  have d: "\<forall>s \<in> set (oxygen_stations db).
             OxygenStation.station_id s \<noteq> ?sid \<longrightarrow> s \<in> set (map ?upd (oxygen_stations db))"
  proof (intro ballI impI)
    fix s assume mem: "s \<in> set (oxygen_stations db)"
      and other: "OxygenStation.station_id s \<noteq> ?sid"
    have same: "?upd s = s"
      using other by (rule set_current_level_miss)
    have "?upd s \<in> ?upd ` set (oxygen_stations db)"
      using mem by (rule imageI)
    then show "s \<in> set (map ?upd (oxygen_stations db))"
      by (simp only: same set_map)
  qed
  have e: "map OxygenStation.status (map ?upd (oxygen_stations db))
             = map OxygenStation.status (oxygen_stations db)"
    by (simp add: set_current_level_fields o_def)
  have f: "map OxygenStation.station_id (map ?upd (oxygen_stations db))
             = map OxygenStation.station_id (oxygen_stations db)"
    by (simp add: set_current_level_fields o_def)
  show ?thesis
    using a b c d e f unfolding st by blast
qed

lemma sample_reading_fits:
  "reading_fits (sample_reading sid 140)"
  "reading_fits (sample_reading sid 60)"
  "reading_fits (sample_reading sid 600)"
  "reading_fits (sample_reading sid (- 5))"
  by (simp_all add: reading_fits_def sample_reading_def decimal_fits_def opt_fits_def)

theorem reading_overwrites_level_only_witness:
  "map (\<lambda>s. (OxygenStation.current_level s, OxygenStation.status s))
     (oxygen_stations (fst (create_reading (sample_db [sample_station 1 ''A'' 500 500]) 7
                              (sample_reading 1 140))))
     = [(140, ''operational'')]
   \<and> oxygen_readings (fst (create_reading (sample_db [sample_station 1 ''A'' 500 500]) 7
                              (sample_reading 1 140)))
     = [\<lparr>OxygenReading.reading_id = 1, OxygenReading.station_id = 1,
         OxygenReading.level_liters = 140, OxygenReading.pressure_psi = Some 150,
         OxygenReading.flow_rate = None, OxygenReading.temperature = None,
         OxygenReading.timestamp = Some 7\<rparr>]"
proof -
  let ?db = "sample_db [sample_station 1 ''A'' 500 500]"
  have h: "station_exists ?db (CreateOxygenReading.station_id (sample_reading 1 140))"
    by (simp add: station_exists_def sample_db_def sample_station_def sample_reading_def)
  have f: "reading_fits (sample_reading 1 140)"
    by (rule sample_reading_fits)
  have stations: "oxygen_stations (fst (create_reading ?db 7 (sample_reading 1 140)))
                    = [set_current_level 7 1 140 (sample_station 1 ''A'' 500 500)]"
    by (simp add: create_reading_accepted [OF h f]) (simp add: sample_db_def sample_reading_def)
  have fields: "CreateOxygenReading.station_id (sample_reading 1 140) = 1"
    "CreateOxygenReading.level_liters (sample_reading 1 140) = 140"
    "CreateOxygenReading.pressure_psi (sample_reading 1 140) = Some 150"
    "CreateOxygenReading.flow_rate (sample_reading 1 140) = None"
    "CreateOxygenReading.temperature (sample_reading 1 140) = None"
    "oxygen_readings ?db = []" "next_reading_id ?db = 1"
    by (simp_all add: sample_reading_def sample_db_def)
  have rows: "oxygen_readings (fst (create_reading ?db 7 (sample_reading 1 140)))
     = [\<lparr>OxygenReading.reading_id = 1, OxygenReading.station_id = 1,
         OxygenReading.level_liters = 140, OxygenReading.pressure_psi = Some 150,
         OxygenReading.flow_rate = None, OxygenReading.temperature = None,
         OxygenReading.timestamp = Some 7\<rparr>]"
    using reading_overwrites_level_only [OF h f, of 7] by (simp add: fields)
  have "map (\<lambda>s. (OxygenStation.current_level s, OxygenStation.status s))
          (oxygen_stations (fst (create_reading ?db 7 (sample_reading 1 140))))
          = [(140, ''operational'')]"
    unfolding stations by (simp add: set_current_level_def sample_station_def)
  then show ?thesis
    using rows by (rule conjI)
qed

text \<open>
  C3 as stated fails in its last part. The status is not recomputed: after a reading of
  140 litres and after one of 60 litres for a station of capacity 500 the status is still
  the one stored before, where the threshold rule with thresholds 30 and 15 gives low and
  critical.
\<close>

theorem reading_status_counterexample:
  "map OxygenStation.status
     (oxygen_stations (fst (create_reading (sample_db [sample_station 1 ''A'' 500 500]) 7
                              (sample_reading 1 140))))
     = [''operational'']
   \<and> spec_threshold_rule 140 500 30 15 = ''low''
   \<and> map OxygenStation.status
       (oxygen_stations (fst (create_reading (sample_db [sample_station 1 ''A'' 500 500]) 7
                                (sample_reading 1 60))))
     = [''operational'']
   \<and> spec_threshold_rule 60 500 30 15 = ''critical''"
  by (simp add: create_reading_def insert_reading_def sample_reading_fits
      spec_threshold_rule_def)
    (simp add: station_exists_def sample_db_def sample_station_def sample_reading_def
      set_current_level_def)

section \<open>Properties of station creation\<close>

lemma find_appended:
  assumes "P x"
  shows "find P (xs @ [x]) \<noteq> None"
  using assms by (induction xs) simp_all

lemma create_station_accepted:
  assumes "station_fits sd"
  shows "fst (create_station db now sd)
           = db\<lparr>oxygen_stations := oxygen_stations db @ [new_station (next_station_id db) now sd],
                next_station_id := next_station_id db + 1\<rparr>"
    and "success (snd (create_station db now sd))"
    and "insert_id (snd (create_station db now sd)) = Some (next_station_id db)"
    and "DatabaseResult.data (snd (create_station db now sd)) \<noteq> None"
proof -
  let ?row = "new_station (next_station_id db) now sd"
  have found: "find (\<lambda>s. OxygenStation.station_id s = next_station_id db)
                 (oxygen_stations db @ [?row]) \<noteq> None"
    by (rule find_appended) (simp add: new_station_def)
  show "fst (create_station db now sd)
           = db\<lparr>oxygen_stations := oxygen_stations db @ [?row],
                next_station_id := next_station_id db + 1\<rparr>"
    using assms by (simp add: create_station_def insert_station_def)
  show "success (snd (create_station db now sd))"
    using assms by (simp add: create_station_def insert_station_def)
  show "insert_id (snd (create_station db now sd)) = Some (next_station_id db)"
    using assms by (simp add: create_station_def insert_station_def)
  show "DatabaseResult.data (snd (create_station db now sd)) \<noteq> None"
    using assms found
    by (auto simp: create_station_def insert_station_def find_station_by_id_def
        succeeded_def failed_def split: option.splits)
qed

lemma create_station_code:
  assumes "station_fits sd"
  shows "code (snd (create_oxygen_station db now sd)) = 201"
proof (cases "create_station db now sd")
  case (Pair db' res)
  note acc = create_station_accepted [OF assms, of db now]
  have ok: "success res" and "DatabaseResult.data res \<noteq> None"
    using acc(2,4) Pair by simp_all
  then obtain row where row: "DatabaseResult.data res = Some row"
    by blast
  show ?thesis
    by (simp add: create_oxygen_station_def Pair ok row)
qed

text \<open>
  C5, as amended. \<open>create_station\<close> does not look at the capacity. A request with a
  capacity of zero or less, whose values fit the columns of the table (the two names and
  the supplier within their lengths, the numbers within the range of their columns, the
  status one of the values of the schema), is accepted: the call succeeds, one row under
  the new identifier is appended to the table, its capacity is the capacity of the
  request rounded to two decimals, which is zero or less as well, and the route answers
  201.
\<close>

theorem nonpositive_capacity_accepted:
  assumes "CreateOxygenStation.capacity_liters sd \<le> 0"
    and "station_fits sd"
  shows "success (snd (create_station db now sd))
         \<and> (\<exists>row. oxygen_stations (fst (create_station db now sd))
                      = oxygen_stations db @ [row]
                  \<and> OxygenStation.station_id row = next_station_id db
                  \<and> OxygenStation.capacity_liters row
                      = stored_decimal 2 (CreateOxygenStation.capacity_liters sd)
                  \<and> OxygenStation.capacity_liters row \<le> 0)
         \<and> code (snd (create_oxygen_station db now sd)) = 201"
proof -
  note acc = create_station_accepted [OF assms(2), of db now]
  let ?row = "new_station (next_station_id db) now sd"
  have "oxygen_stations (fst (create_station db now sd)) = oxygen_stations db @ [?row]"
    by (simp add: acc(1))
  moreover have "OxygenStation.station_id ?row = next_station_id db"
    by (simp add: new_station_def)
  moreover have cap: "OxygenStation.capacity_liters ?row
                   = stored_decimal 2 (CreateOxygenStation.capacity_liters sd)"
    by (simp add: new_station_def)
  moreover have "OxygenStation.capacity_liters ?row \<le> 0"
    unfolding cap using assms(1) by (rule stored_decimal_nonpositive)
  ultimately have "\<exists>row. oxygen_stations (fst (create_station db now sd))
                      = oxygen_stations db @ [row]
                  \<and> OxygenStation.station_id row = next_station_id db
                  \<and> OxygenStation.capacity_liters row
                      = stored_decimal 2 (CreateOxygenStation.capacity_liters sd)
                  \<and> OxygenStation.capacity_liters row \<le> 0"
    by blast
  then show ?thesis
    using acc(2) create_station_code [OF assms(2), of db now] by blast
qed

lemma sample_request_fits:
  "station_fits (sample_request 0)"
  "station_fits (sample_request (- 10))"
  "station_fits (sample_request 500)"
  "station_fits ((sample_request 500)\<lparr>CreateOxygenStation.current_level := 600\<rparr>)"
  by (simp_all add: station_fits_def sample_request_def varchar_fits_def decimal_fits_def
      opt_fits_def station_status_enum_def)

theorem nonpositive_capacity_accepted_witness:
  "success (snd (create_station (sample_db []) 7 (sample_request 0)))
   \<and> (\<exists>row. oxygen_stations (fst (create_station (sample_db []) 7 (sample_request 0))) = [row]
          \<and> OxygenStation.station_id row = 1
          \<and> OxygenStation.capacity_liters row = 0)
   \<and> code (snd (create_oxygen_station (sample_db []) 7 (sample_request 0))) = 201"
proof -
  have h1: "CreateOxygenStation.capacity_liters (sample_request 0) \<le> 0"
    by (simp add: sample_request_def)
  have h2: "station_fits (sample_request 0)"
    by (rule sample_request_fits)
  have v: "oxygen_stations (sample_db []) = []" "next_station_id (sample_db []) = 1"
    "CreateOxygenStation.capacity_liters (sample_request 0) = 0"
    by (simp_all add: sample_db_def sample_request_def)
  show ?thesis
    using nonpositive_capacity_accepted [OF h1 h2, of "sample_db []" 7]
    by (simp add: v) blast
qed

text \<open>
  C5 as stated fails: the request with capacity -10 is accepted, its row is stored under
  the new identifier 1 with capacity -10, and the route answers 201.
\<close>

theorem capacity_validation_counterexample:
  "CreateOxygenStation.capacity_liters (sample_request (- 10)) = - 10
   \<and> success (snd (create_station (sample_db []) 7 (sample_request (- 10))))
   \<and> map (\<lambda>s. (OxygenStation.station_id s, OxygenStation.capacity_liters s))
       (oxygen_stations (fst (create_station (sample_db []) 7 (sample_request (- 10)))))
     = [(1, - 10)]
   \<and> code (snd (create_oxygen_station (sample_db []) 7 (sample_request (- 10)))) = 201"
  by (simp add: create_station_accepted [OF sample_request_fits(2)]
      create_station_code [OF sample_request_fits(2)])
    (simp add: new_station_def sample_db_def sample_request_def)

section \<open>Properties of the stored level\<close>

lemma update_level_stored:
  assumes "fetch_one tbl sid = Some st" and "n \<le> level_station.capacity_liters st"
  shows "\<exists>st'. fetch_one (fst (update_oxygen_level tbl now sid n)) sid = Some st'
           \<and> current_level_liters st' = n
           \<and> level_station.capacity_liters st' = level_station.capacity_liters st"
proof -
  have sid: "level_station.station_id st = sid"
    using assms(1) by (rule fetch_one_station_id)
  have "fst (update_oxygen_level tbl now sid n) = map (set_level now sid n) tbl"
    by (simp add: update_accepted [OF assms])
  then have "fetch_one (fst (update_oxygen_level tbl now sid n)) sid
               = Some (set_level now sid n st)"
    using assms(1) by (simp add: fetch_one_set_level)
  moreover have "current_level_liters (set_level now sid n st) = n"
    using sid by (simp add: set_level_def)
  moreover have "level_station.capacity_liters (set_level now sid n st)
                   = level_station.capacity_liters st"
    by (simp add: set_level_def)
  ultimately show ?thesis
    by simp
qed

lemma update_success_guard:
  assumes "update_oxygen_level tbl now sid n = (tbl', Inr resp)"
  shows "\<exists>st. fetch_one tbl sid = Some st \<and> n \<le> level_station.capacity_liters st"
  using assms by (auto simp: update_oxygen_level_def split: option.splits if_splits)

lemma apply_update_level:
  assumes "UpdateOxygenStation.current_level u = Some v"
  shows "OxygenStation.current_level (apply_update now u s) = stored_decimal 2 v"
    and "OxygenStation.station_id (apply_update now u s) = OxygenStation.station_id s"
    and "OxygenStation.updated_at (apply_update now u s) = Some now"
  using assms by (simp_all add: apply_update_def set_or_keep_def)

lemma update_rows_levels:
  assumes "UpdateOxygenStation.current_level u = Some v"
  shows "\<forall>s \<in> set (update_rows now sid u rows).
           OxygenStation.station_id s = sid
             \<longrightarrow> OxygenStation.current_level s = stored_decimal 2 v"
  by (induction rows) (simp_all add: update_rows_def apply_update_level [OF assms])

lemma update_rows_changed:
  assumes "s \<in> set rows" and "OxygenStation.station_id s = sid"
    and "OxygenStation.updated_at s \<noteq> Some now"
  shows "update_rows now sid u rows \<noteq> rows"
proof
  assume "update_rows now sid u rows = rows"
  then have "map (\<lambda>s. if OxygenStation.station_id s = sid then apply_update now u s else s) rows
               = map (\<lambda>s. s) rows"
    by (simp add: update_rows_def)
  then have "(if OxygenStation.station_id s = sid then apply_update now u s else s) = s"
    using assms(1) by (simp only: map_eq_conv)
  then have "OxygenStation.updated_at (apply_update now u s) = OxygenStation.updated_at s"
    using assms(2) by simp
  then show False
    using assms(3) by (simp add: apply_update_def)
qed

lemma update_station_accepted:
  assumes "UpdateOxygenStation.current_level u = Some v"
    and "update_fits u"
    and "s \<in> set (oxygen_stations db)"
    and "OxygenStation.station_id s = sid"
    and "OxygenStation.updated_at s \<noteq> Some now"
  shows "success (snd (update_station db now sid u))"
    and "oxygen_stations (fst (update_station db now sid u))
           = update_rows now sid u (oxygen_stations db)"
proof -
  have fields: "\<not> no_fields u"
    using assms(1) by (simp add: no_fields_def)
  have ex: "station_exists db sid"
    using assms(3,4) by (auto simp: station_exists_def)
  have ch: "update_rows now sid u (oxygen_stations db) \<noteq> oxygen_stations db"
    using assms(3,4,5) by (rule update_rows_changed)
  show "success (snd (update_station db now sid u))"
    by (simp add: update_station_def fields ex ch assms(2))
  show "oxygen_stations (fst (update_station db now sid u))
           = update_rows now sid u (oxygen_stations db)"
    by (simp add: update_station_def fields ex ch assms(2))
qed

text \<open>
  C1, as amended. After every successful direct level update the level stored for the
  station is the new level and is at most the capacity of the station. Zero is no bound
  there: every level that is at most the capacity, a negative one included, is accepted
  and stored. Station creation, reading ingestion and metadata update compare no level
  with a capacity or with zero: when the values fit their columns, \<open>create_station\<close>
  stores the level and the capacity of the request, \<open>create_reading\<close> sets the level
  of the station to the level of the reading and leaves the capacity as it is, and
  \<open>update_station\<close> with a level sets the level of the station to it, each rounded to
  the two decimals of the column.
\<close>

theorem accepted_level_within_capacity:
  "(update_oxygen_level tbl now sid n = (tbl', Inr resp)
      \<longrightarrow> (\<exists>st'. fetch_one tbl' sid = Some st'
             \<and> current_level_liters st' = n
             \<and> current_level_liters st' \<le> level_station.capacity_liters st'))
   \<and> (fetch_one tbl sid = Some st \<and> n \<le> level_station.capacity_liters st
      \<longrightarrow> snd (update_oxygen_level tbl now sid n)
            = Inr \<lparr>message = ''Oxygen level updated successfully'', new_level_liters = n\<rparr>
          \<and> (\<exists>st'. fetch_one (fst (update_oxygen_level tbl now sid n)) sid = Some st'
                \<and> current_level_liters st' = n))
   \<and> (station_fits sd
      \<longrightarrow> success (snd (create_station db now sd))
          \<and> (\<exists>row. oxygen_stations (fst (create_station db now sd))
                       = oxygen_stations db @ [row]
                   \<and> OxygenStation.current_level row
                       = stored_decimal 2 (CreateOxygenStation.current_level sd)
                   \<and> OxygenStation.capacity_liters row
                       = stored_decimal 2 (CreateOxygenStation.capacity_liters sd)))
   \<and> (station_exists db (CreateOxygenReading.station_id rd) \<and> reading_fits rd
      \<longrightarrow> success (snd (create_reading db now rd))
          \<and> (\<forall>s \<in> set (oxygen_stations (fst (create_reading db now rd))).
                OxygenStation.station_id s = CreateOxygenReading.station_id rd
                  \<longrightarrow> OxygenStation.current_level s
                        = stored_decimal 2 (CreateOxygenReading.level_liters rd)
                      \<and> (\<exists>s0 \<in> set (oxygen_stations db).
                            OxygenStation.capacity_liters s
                              = OxygenStation.capacity_liters s0)))
   \<and> (UpdateOxygenStation.current_level u = Some v \<and> update_fits u
        \<and> s \<in> set (oxygen_stations db) \<and> OxygenStation.station_id s = i
        \<and> OxygenStation.updated_at s \<noteq> Some now
      \<longrightarrow> success (snd (update_station db now i u))
          \<and> (\<forall>s' \<in> set (oxygen_stations (fst (update_station db now i u))).
                OxygenStation.station_id s' = i
                  \<longrightarrow> OxygenStation.current_level s' = stored_decimal 2 v))"
proof (intro conjI impI)
  assume a: "update_oxygen_level tbl now sid n = (tbl', Inr resp)"
  then obtain st0 where st0: "fetch_one tbl sid = Some st0"
    and le: "n \<le> level_station.capacity_liters st0"
    using update_success_guard by blast
  have "tbl' = fst (update_oxygen_level tbl now sid n)"
    using a by simp
  then show "\<exists>st'. fetch_one tbl' sid = Some st'
             \<and> current_level_liters st' = n
             \<and> current_level_liters st' \<le> level_station.capacity_liters st'"
    using update_level_stored [OF st0 le, of now] le by auto
next
  assume b: "fetch_one tbl sid = Some st \<and> n \<le> level_station.capacity_liters st"
  then show "snd (update_oxygen_level tbl now sid n)
            = Inr \<lparr>message = ''Oxygen level updated successfully'', new_level_liters = n\<rparr>"
    by (simp add: update_oxygen_level_def)
  from b show "\<exists>st'. fetch_one (fst (update_oxygen_level tbl now sid n)) sid = Some st'
                \<and> current_level_liters st' = n"
    using update_level_stored [of tbl sid st n now] by blast
next
  assume c: "station_fits sd"
  note acc = create_station_accepted [OF c, of db now]
  show "success (snd (create_station db now sd))"
    by (rule acc(2))
  have "oxygen_stations (fst (create_station db now sd))
          = oxygen_stations db @ [new_station (next_station_id db) now sd]"
    by (simp add: acc(1))
  moreover have "OxygenStation.current_level (new_station (next_station_id db) now sd)
                   = stored_decimal 2 (CreateOxygenStation.current_level sd)"
    "OxygenStation.capacity_liters (new_station (next_station_id db) now sd)
                   = stored_decimal 2 (CreateOxygenStation.capacity_liters sd)"
    by (simp_all add: new_station_def)
  ultimately show "\<exists>row. oxygen_stations (fst (create_station db now sd))
                       = oxygen_stations db @ [row]
                   \<and> OxygenStation.current_level row
                       = stored_decimal 2 (CreateOxygenStation.current_level sd)
                   \<and> OxygenStation.capacity_liters row
                       = stored_decimal 2 (CreateOxygenStation.capacity_liters sd)"
    by blast
next
  assume d: "station_exists db (CreateOxygenReading.station_id rd) \<and> reading_fits rd"
  then have ex: "station_exists db (CreateOxygenReading.station_id rd)"
    and fit: "reading_fits rd"
    by simp_all
  note acc = create_reading_accepted [OF ex fit, of now]
  show "success (snd (create_reading db now rd))"
    by (simp add: acc)
  show "\<forall>s \<in> set (oxygen_stations (fst (create_reading db now rd))).
                OxygenStation.station_id s = CreateOxygenReading.station_id rd
                  \<longrightarrow> OxygenStation.current_level s
                        = stored_decimal 2 (CreateOxygenReading.level_liters rd)
                      \<and> (\<exists>s0 \<in> set (oxygen_stations db).
                            OxygenStation.capacity_liters s
                              = OxygenStation.capacity_liters s0)"
    by (auto simp: acc set_current_level_fields set_current_level_hit)
next
  assume e: "UpdateOxygenStation.current_level u = Some v \<and> update_fits u
        \<and> s \<in> set (oxygen_stations db) \<and> OxygenStation.station_id s = i
        \<and> OxygenStation.updated_at s \<noteq> Some now"
  then have e1: "UpdateOxygenStation.current_level u = Some v" and e2: "update_fits u"
    and e3: "s \<in> set (oxygen_stations db)" and e4: "OxygenStation.station_id s = i"
    and e5: "OxygenStation.updated_at s \<noteq> Some now"
    by simp_all
  note acc = update_station_accepted [OF e1 e2 e3 e4 e5]
  show "success (snd (update_station db now i u))"
    by (rule acc(1))
  show "\<forall>s' \<in> set (oxygen_stations (fst (update_station db now i u))).
                OxygenStation.station_id s' = i
                  \<longrightarrow> OxygenStation.current_level s' = stored_decimal 2 v"
    unfolding acc(2) using e1 by (rule update_rows_levels)
qed

lemma sample_update_fits: "update_fits (sample_update 900)"
  by (simp add: update_fits_def sample_update_def opt_fits_def decimal_fits_def)

theorem accepted_level_within_capacity_witness:
  "(\<exists>st'. fetch_one (fst (update_oxygen_level [scenario_station] 7 1 140)) 1 = Some st'
          \<and> current_level_liters st' = 140
          \<and> current_level_liters st' \<le> level_station.capacity_liters st')
   \<and> success (snd (create_station (sample_db [sample_station 1 ''A'' 500 500]) 7
                     ((sample_request 500)\<lparr>CreateOxygenStation.current_level := 600\<rparr>)))
   \<and> success (snd (create_reading (sample_db [sample_station 1 ''A'' 500 500]) 7
                     (sample_reading 1 600)))
   \<and> success (snd (update_station (sample_db [sample_station 1 ''A'' 500 500]) 7 1
                     (sample_update 900)))"
proof -
  let ?db = "sample_db [sample_station 1 ''A'' 500 500]"
  let ?sd = "(sample_request 500)\<lparr>CreateOxygenStation.current_level := 600\<rparr>"
  have h1: "update_oxygen_level [scenario_station] 7 1 140
              = (fst (update_oxygen_level [scenario_station] 7 1 140),
                 Inr \<lparr>message = ''Oxygen level updated successfully'',
                      new_level_liters = 140\<rparr>)"
    by (simp add: update_oxygen_level_def fetch_one_def scenario_station_def)
  have h2: "fetch_one [scenario_station] 1 = Some scenario_station
              \<and> 140 \<le> level_station.capacity_liters scenario_station"
    by (simp add: fetch_one_def scenario_station_def)
  have h3: "station_fits ?sd"
    by (rule sample_request_fits)
  have h4: "station_exists ?db (CreateOxygenReading.station_id (sample_reading 1 600))
              \<and> reading_fits (sample_reading 1 600)"
    by (simp add: sample_reading_fits)
      (simp add: station_exists_def sample_db_def sample_station_def sample_reading_def)
  have h5: "UpdateOxygenStation.current_level (sample_update 900) = Some 900
              \<and> update_fits (sample_update 900)
              \<and> sample_station 1 ''A'' 500 500 \<in> set (oxygen_stations ?db)
              \<and> OxygenStation.station_id (sample_station 1 ''A'' 500 500) = 1
              \<and> OxygenStation.updated_at (sample_station 1 ''A'' 500 500) \<noteq> Some 7"
    by (simp add: sample_update_fits)
      (simp add: sample_update_def sample_db_def sample_station_def)
  show ?thesis
    using accepted_level_within_capacity
            [where tbl = "[scenario_station]" and now = 7 and sid = 1 and n = 140
               and tbl' = "fst (update_oxygen_level [scenario_station] 7 1 140)"
               and resp = "\<lparr>message = ''Oxygen level updated successfully'',
                              new_level_liters = 140\<rparr>"
               and st = scenario_station and sd = ?sd and db = ?db
               and rd = "sample_reading 1 600" and u = "sample_update 900" and v = 900
               and s = "sample_station 1 ''A'' 500 500" and i = 1]
      h1 h2 h3 h4 h5
    by blast
qed

text \<open>
  C1 as stated fails. The direct update checks the level against the capacity only: a
  level of -5 is accepted and stored. The other three operations check nothing: for a
  station of capacity 500, a reading of 600 litres and one of -5 litres each succeed and
  set the level, a creation request with level 600 is stored, and a metadata update
  with level 900 succeeds.
\<close>

theorem level_invariant_counterexample:
  "snd (update_oxygen_level [scenario_station] 0 1 (- 5))
     = Inr \<lparr>message = ''Oxygen level updated successfully'', new_level_liters = - 5\<rparr>
   \<and> map current_level_liters (fst (update_oxygen_level [scenario_station] 0 1 (- 5))) = [- 5]
   \<and> success (snd (create_reading (sample_db [sample_station 1 ''A'' 500 500]) 7
                      (sample_reading 1 600)))
   \<and> map (\<lambda>s. (OxygenStation.current_level s, OxygenStation.capacity_liters s))
        (oxygen_stations (fst (create_reading (sample_db [sample_station 1 ''A'' 500 500]) 7
                                 (sample_reading 1 600))))
       = [(600, 500)]
   \<and> success (snd (create_reading (sample_db [sample_station 1 ''A'' 500 500]) 7
                      (sample_reading 1 (- 5))))
   \<and> map (\<lambda>s. (OxygenStation.current_level s, OxygenStation.capacity_liters s))
        (oxygen_stations (fst (create_reading (sample_db [sample_station 1 ''A'' 500 500]) 7
                                 (sample_reading 1 (- 5)))))
       = [(- 5, 500)]
   \<and> success (snd (create_station (sample_db []) 7
                      ((sample_request 500)\<lparr>CreateOxygenStation.current_level := 600\<rparr>)))
   \<and> map (\<lambda>s. (OxygenStation.current_level s, OxygenStation.capacity_liters s))
        (oxygen_stations (fst (create_station (sample_db []) 7
                                 ((sample_request 500)\<lparr>CreateOxygenStation.current_level := 600\<rparr>))))
       = [(600, 500)]
   \<and> success (snd (update_station (sample_db [sample_station 1 ''A'' 500 500]) 7 1
                      (sample_update 900)))
   \<and> map (\<lambda>s. (OxygenStation.current_level s, OxygenStation.capacity_liters s))
        (oxygen_stations (fst (update_station (sample_db [sample_station 1 ''A'' 500 500]) 7 1
                                 (sample_update 900))))
       = [(900, 500)]"
proof -
  let ?db = "sample_db [sample_station 1 ''A'' 500 500]"
  let ?sd = "(sample_request 500)\<lparr>CreateOxygenStation.current_level := 600\<rparr>"
  have a: "snd (update_oxygen_level [scenario_station] 0 1 (- 5))
             = Inr \<lparr>message = ''Oxygen level updated successfully'', new_level_liters = - 5\<rparr>"
    "map current_level_liters (fst (update_oxygen_level [scenario_station] 0 1 (- 5))) = [- 5]"
    by (simp_all add: update_oxygen_level_def fetch_one_def scenario_station_def set_level_def)
  have ex: "station_exists ?db i = (i = 1)" for i
    by (auto simp: station_exists_def sample_db_def sample_station_def)
  have b: "success (snd (create_reading ?db 7 (sample_reading 1 lvl)))
           \<and> map (\<lambda>s. (OxygenStation.current_level s, OxygenStation.capacity_liters s))
                (oxygen_stations (fst (create_reading ?db 7 (sample_reading 1 lvl))))
               = [(stored_decimal 2 lvl, 500)]"
    if "reading_fits (sample_reading 1 lvl)" for lvl
    using that
    by (simp add: create_reading_def insert_reading_def ex)
      (simp add: sample_reading_def sample_db_def sample_station_def set_current_level_def)
  have c: "success (snd (create_station (sample_db []) 7 ?sd))"
    "map (\<lambda>s. (OxygenStation.current_level s, OxygenStation.capacity_liters s))
        (oxygen_stations (fst (create_station (sample_db []) 7 ?sd))) = [(600, 500)]"
    by (simp_all add: create_station_accepted [OF sample_request_fits(4)])
      (simp_all add: new_station_def sample_db_def sample_request_def)
  have d: "success (snd (update_station ?db 7 1 (sample_update 900)))"
    "map (\<lambda>s. (OxygenStation.current_level s, OxygenStation.capacity_liters s))
        (oxygen_stations (fst (update_station ?db 7 1 (sample_update 900)))) = [(900, 500)]"
    by (simp_all add: update_station_def ex sample_update_fits)
      (simp_all add: no_fields_def update_rows_def apply_update_def set_or_keep_def
        set_or_keep_opt_def sample_update_def sample_db_def sample_station_def)
  show ?thesis
    using a b [of 600] b [of "- 5"] c d by (simp add: sample_reading_fits)
qed

section \<open>Properties of the statement texts\<close>

text \<open>
  C6, as amended. The sort column and the sort direction in the \<open>ORDER BY\<close> clause of the
  station list query and of the reading list query are the \<open>sort_by\<close> and \<open>sort_order\<close>
  arguments of the request, as the caller wrote them; no list of columns is consulted.
\<close>

theorem order_by_text_is_callers:
  assumes "arg_sort_by a = Some sb" and "arg_sort_order a = Some so"
  shows "get_oxygen_stations_query a
           = ''SELECT * FROM oxygen_stations '' @ where_clause (stations_filter a)
               @ '' ORDER BY '' @ sb @ '' '' @ so @ '' LIMIT %s OFFSET %s''
         \<and> get_oxygen_readings_query a
           = ''SELECT * FROM oxygen_readings WHERE station_id = %s''
               @ '' ORDER BY '' @ sb @ '' '' @ so @ '' LIMIT %s OFFSET %s''"
  using assms
  by (simp add: get_oxygen_stations_query_def get_oxygen_readings_query_def
      stations_data_query_def readings_data_query_def stations_pagination_def
      readings_pagination_def or_default_def)

theorem order_by_text_is_callers_witness:
  "get_oxygen_stations_query (sample_args 1 10 ''location'' ''DESC'')
     = ''SELECT * FROM oxygen_stations  ORDER BY location DESC LIMIT %s OFFSET %s''
   \<and> get_oxygen_readings_query (sample_args 1 10 ''location'' ''DESC'')
     = ''SELECT * FROM oxygen_readings WHERE station_id = %s ORDER BY location DESC LIMIT %s OFFSET %s''"
proof -
  have h1: "arg_sort_by (sample_args 1 10 ''location'' ''DESC'') = Some ''location''"
    and h2: "arg_sort_order (sample_args 1 10 ''location'' ''DESC'') = Some ''DESC''"
    by (simp_all add: sample_args_def)
  have w: "where_clause (stations_filter (sample_args 1 10 ''location'' ''DESC'')) = []"
    by (simp add: where_clause_def where_conditions_def stations_filter_def sample_args_def)
  show ?thesis
    using order_by_text_is_callers [OF h1 h2] by (simp add: w)
qed

text \<open>
  C6 as stated fails: a \<open>sort_by\<close> that is no column of either table and a \<open>sort_order\<close>
  that is no direction are both copied into the text of the two data queries.
\<close>

theorem sort_allow_list_counterexample:
  "''(SELECT 1)'' \<notin> fst ` set station_columns
   \<and> ''(SELECT 1)'' \<notin> fst ` set reading_columns
   \<and> parse_sort_order ''DESC, location'' = None
   \<and> get_oxygen_stations_query (sample_args 1 10 ''(SELECT 1)'' ''DESC, location'')
     = ''SELECT * FROM oxygen_stations  ORDER BY (SELECT 1) DESC, location LIMIT %s OFFSET %s''
   \<and> get_oxygen_readings_query (sample_args 1 10 ''(SELECT 1)'' ''DESC, location'')
     = ''SELECT * FROM oxygen_readings WHERE station_id = %s ORDER BY (SELECT 1) DESC, location LIMIT %s OFFSET %s''"
  by (simp add: get_oxygen_stations_query_def get_oxygen_readings_query_def
      stations_data_query_def readings_data_query_def stations_pagination_def
      readings_pagination_def or_default_def sample_args_def where_clause_def
      where_conditions_def stations_filter_def station_columns_def reading_columns_def
      parse_sort_order_def)

section \<open>Properties of the statistics\<close>

lemma percentage_defined:
  assumes "OxygenStation.capacity_liters s \<noteq> 0"
  shows "sql_mul (decimal_ratio nu s) 100
           = Some (div_decimal nu (OxygenStation.current_level s)
                     (OxygenStation.capacity_liters s) * 100)"
  using assms by (simp add: sql_mul_def decimal_ratio_def)

lemma non_null_percentages:
  assumes "\<forall>s \<in> set rows. OxygenStation.capacity_liters s \<noteq> 0"
  shows "non_null (map (\<lambda>s. sql_mul (decimal_ratio nu s) 100) rows)
           = map (\<lambda>s. div_decimal nu (OxygenStation.current_level s)
                          (OxygenStation.capacity_liters s) * 100) rows"
  using assms by (induction rows) (simp_all add: non_null_def percentage_defined)

lemma statistics_average:
  "map_option average_fill_percentage (DatabaseResult.data (get_statistics nu db))
     = Some (float_or_zero nu
               (sql_avg nu (map (\<lambda>s. sql_mul (decimal_ratio nu s) 100) (oxygen_stations db))))"
  by (simp add: get_statistics_def succeeded_def Let_def)

lemma statistics_alerts:
  "map_option low_level_alerts (DatabaseResult.data (get_statistics nu db))
     = Some (count_where (\<lambda>s. sql_less (fill_ratio s) (Some (2 / 10))) (oxygen_stations db))"
  by (simp add: get_statistics_def succeeded_def Let_def)

lemma average_of_rows:
  assumes "\<forall>s \<in> set (oxygen_stations db). OxygenStation.capacity_liters s > 0"
  shows "map_option average_fill_percentage (DatabaseResult.data (get_statistics nu db))
           = Some (if oxygen_stations db = [] then 0
                   else float_or_zero nu
                          (Some (avg_decimal nu
                             (sum_list
                                (map (\<lambda>s. div_decimal nu (OxygenStation.current_level s)
                                             (OxygenStation.capacity_liters s) * 100)
                                   (oxygen_stations db)))
                             (length (oxygen_stations db)))))"
proof -
  have nz: "\<forall>s \<in> set (oxygen_stations db). OxygenStation.capacity_liters s \<noteq> 0"
    using assms by auto
  have vals: "non_null (map (\<lambda>s. sql_mul (decimal_ratio nu s) 100) (oxygen_stations db))
                = map (\<lambda>s. div_decimal nu (OxygenStation.current_level s)
                               (OxygenStation.capacity_liters s) * 100) (oxygen_stations db)"
    using nz by (rule non_null_percentages)
  show ?thesis
    by (simp add: statistics_average sql_avg_def vals float_or_zero_def)
qed

text \<open>
  C8, as amended. For every table of stations whose capacities are above zero, the
  average fill percentage of \<open>get_statistics\<close> is zero for an empty table and otherwise
  the mean of the fill percentages of the stations as the engine and Python compute it:
  the quotient of level and capacity of each station in the decimals of the engine,
  times 100, their sum divided by their count in the decimals of the engine, and the
  result through \<open>float()\<close>. Where these three steps round nothing it is the arithmetic
  mean of the fill percentages. It is not the percentage pooled over the stations: the
  two can differ when the capacities vary, as they do for a full station of capacity 100
  and an empty one of capacity 300 (mean 50, pooled 25), with any numerics that compute
  100/100, 0/300, 100/2 and the float of 50 without error.
\<close>

theorem average_fill_is_mean_of_ratios:
  assumes "\<forall>s \<in> set (oxygen_stations db). OxygenStation.capacity_liters s > 0"
  shows "map_option average_fill_percentage (DatabaseResult.data (get_statistics nu db))
           = Some (if oxygen_stations db = [] then 0
                   else float_or_zero nu
                          (Some (avg_decimal nu
                             (sum_list
                                (map (\<lambda>s. div_decimal nu (OxygenStation.current_level s)
                                             (OxygenStation.capacity_liters s) * 100)
                                   (oxygen_stations db)))
                             (length (oxygen_stations db)))))
         \<and> map_option average_fill_percentage
             (DatabaseResult.data (get_statistics exact_numerics db))
             = Some (if oxygen_stations db = [] then 0
                     else sum_list (map fill_percentage (oxygen_stations db))
                            / of_nat (length (oxygen_stations db)))
         \<and> (div_decimal nu 100 100 = 1 \<and> div_decimal nu 0 300 = 0
              \<and> avg_decimal nu 100 2 = 50 \<and> py_float nu 50 = 50
            \<longrightarrow> map_option average_fill_percentage
                  (DatabaseResult.data
                     (get_statistics nu (sample_db [sample_station 1 ''A'' 100 100,
                                                    sample_station 2 ''B'' 300 0])))
                  = Some 50
                \<and> spec_pooled_percentage [sample_station 1 ''A'' 100 100,
                                           sample_station 2 ''B'' 300 0] = 25)"
proof (intro conjI impI)
  show "map_option average_fill_percentage (DatabaseResult.data (get_statistics nu db))
           = Some (if oxygen_stations db = [] then 0
                   else float_or_zero nu
                          (Some (avg_decimal nu
                             (sum_list
                                (map (\<lambda>s. div_decimal nu (OxygenStation.current_level s)
                                             (OxygenStation.capacity_liters s) * 100)
                                   (oxygen_stations db)))
                             (length (oxygen_stations db)))))"
    using assms by (rule average_of_rows)
next
  have f: "float_or_zero exact_numerics (Some q) = q" for q
    by (simp add: float_or_zero_def exact_numerics_def)
  have d: "(\<lambda>s. div_decimal exact_numerics (OxygenStation.current_level s)
                  (OxygenStation.capacity_liters s) * 100) = fill_percentage"
    by (simp add: fun_eq_iff exact_numerics_def fill_percentage_def)
  have m: "avg_decimal exact_numerics total k = total / of_nat k" for total k
    by (simp add: exact_numerics_def)
  show "map_option average_fill_percentage
             (DatabaseResult.data (get_statistics exact_numerics db))
             = Some (if oxygen_stations db = [] then 0
                     else sum_list (map fill_percentage (oxygen_stations db))
                            / of_nat (length (oxygen_stations db)))"
    unfolding average_of_rows [OF assms, of exact_numerics]
    by (simp only: f d m)
next
  let ?rows = "[sample_station 1 ''A'' 100 100, sample_station 2 ''B'' 300 0]"
  assume nu: "div_decimal nu 100 100 = 1 \<and> div_decimal nu 0 300 = 0
              \<and> avg_decimal nu 100 2 = 50 \<and> py_float nu 50 = 50"
  have pos: "\<forall>s \<in> set (oxygen_stations (sample_db ?rows)). OxygenStation.capacity_liters s > 0"
    by (simp add: sample_db_def sample_station_def)
  show "map_option average_fill_percentage
          (DatabaseResult.data (get_statistics nu (sample_db ?rows))) = Some 50"
  proof -
    have two: "Suc (Suc 0) = 2"
      by simp
    have avg: "avg_decimal nu 100 (Suc (Suc 0)) = 50"
      unfolding two using nu by simp
    show ?thesis
      unfolding average_of_rows [OF pos, of nu]
      using nu by (simp add: sample_db_def sample_station_def float_or_zero_def avg)
  qed
  show "spec_pooled_percentage ?rows = 25"
    by (simp add: spec_pooled_percentage_def sample_station_def)
qed

lemma sample_third: "stored_decimal 10 (100 / 3) = 333333333333 / 10000000000"
  by code_simp

theorem average_fill_is_mean_of_ratios_witness:
  "map_option average_fill_percentage
     (DatabaseResult.data
        (get_statistics sample_numerics (sample_db [sample_station 1 ''A'' 100 100,
                                                    sample_station 2 ''B'' 300 0])))
     = Some 50
   \<and> spec_pooled_percentage [sample_station 1 ''A'' 100 100, sample_station 2 ''B'' 300 0]
     = 25
   \<and> map_option average_fill_percentage
       (DatabaseResult.data
          (get_statistics sample_numerics (sample_db [sample_station 1 ''A'' 3 1])))
     = Some (333333333333 / 10000000000)"
proof -
  let ?db = "sample_db [sample_station 1 ''A'' 100 100, sample_station 2 ''B'' 300 0]"
  let ?third = "sample_db [sample_station 1 ''A'' 3 1]"
  have h: "\<forall>s \<in> set (oxygen_stations ?db). OxygenStation.capacity_liters s > 0"
    by (simp add: sample_db_def sample_station_def)
  have nu: "div_decimal sample_numerics 100 100 = 1 \<and> div_decimal sample_numerics 0 300 = 0
              \<and> avg_decimal sample_numerics 100 2 = 50 \<and> py_float sample_numerics 50 = 50"
    by (simp add: sample_numerics_def)
  have first: "map_option average_fill_percentage
                 (DatabaseResult.data (get_statistics sample_numerics ?db)) = Some 50
               \<and> spec_pooled_percentage [sample_station 1 ''A'' 100 100,
                                          sample_station 2 ''B'' 300 0] = 25"
    using average_fill_is_mean_of_ratios [OF h, of sample_numerics] nu by blast
  have h3: "\<forall>s \<in> set (oxygen_stations ?third). OxygenStation.capacity_liters s > 0"
    by (simp add: sample_db_def sample_station_def)
  have "map_option average_fill_percentage
          (DatabaseResult.data (get_statistics sample_numerics ?third))
          = Some (333333333333 / 10000000000)"
    using average_fill_is_mean_of_ratios [OF h3, of sample_numerics]
    by (simp add: sample_db_def sample_station_def sample_numerics_def float_or_zero_def
        sample_third)
  with first show ?thesis
    by simp
qed

text \<open>
  C8 as stated fails in its last part: the two do not differ whenever the capacities
  vary. Two stations of capacity 100 and 200, both half full, have a mean of 50 and a
  pooled percentage of 50.
\<close>

theorem average_always_differs_counterexample:
  "OxygenStation.capacity_liters (sample_station 1 ''A'' 100 50)
     \<noteq> OxygenStation.capacity_liters (sample_station 2 ''B'' 200 100)
   \<and> map_option average_fill_percentage
       (DatabaseResult.data
          (get_statistics sample_numerics (sample_db [sample_station 1 ''A'' 100 50,
                                                      sample_station 2 ''B'' 200 100])))
     = Some 50
   \<and> spec_pooled_percentage [sample_station 1 ''A'' 100 50, sample_station 2 ''B'' 200 100]
     = 50"
  by (simp add: statistics_average sql_avg_def non_null_def sql_mul_def decimal_ratio_def
      float_or_zero_def spec_pooled_percentage_def sample_db_def sample_station_def
      sample_numerics_def)

lemma below_cutoff:
  "is_true (sql_less (fill_ratio s) (Some (2 / 10)))
     = (OxygenStation.capacity_liters s \<noteq> 0
        \<and> OxygenStation.current_level s / OxygenStation.capacity_liters s < 20 / 100)"
  by (simp add: is_true_def fill_ratio_def sql_div_def)

text \<open>
  C9. The count of low level alerts of \<open>get_statistics\<close> is the number of stations whose
  level divided by the capacity is below the fixed 20 percent; a station whose capacity
  is zero has no such ratio and is not counted. The count reads the level and the
  capacity of a row and no threshold.
\<close>

theorem low_level_alerts_fixed_cutoff:
  "map_option low_level_alerts (DatabaseResult.data (get_statistics nu db))
     = Some (int (length (filter
          (\<lambda>s. OxygenStation.capacity_liters s \<noteq> 0
                \<and> OxygenStation.current_level s / OxygenStation.capacity_liters s < 20 / 100)
          (oxygen_stations db))))"
proof -
  have "filter (\<lambda>s. is_true (sql_less (fill_ratio s) (Some (2 / 10)))) (oxygen_stations db)
          = filter (\<lambda>s. OxygenStation.capacity_liters s \<noteq> 0
                \<and> OxygenStation.current_level s / OxygenStation.capacity_liters s < 20 / 100)
              (oxygen_stations db)"
    by (simp only: below_cutoff)
  then show ?thesis
    by (simp only: statistics_alerts count_where_def)
qed

theorem low_level_alerts_fixed_cutoff_witness:
  "map_option low_level_alerts
     (DatabaseResult.data
        (get_statistics sample_numerics (sample_db [sample_station 1 ''A'' 500 99,
                                    sample_station 2 ''B'' 500 100,
                                    sample_station 3 ''C'' 0 0])))
     = Some 1"
  using low_level_alerts_fixed_cutoff
          [of sample_numerics "sample_db [sample_station 1 ''A'' 500 99,
                          sample_station 2 ''B'' 500 100, sample_station 3 ''C'' 0 0]"]
  by (simp add: sample_db_def sample_station_def)

section \<open>The foreign key is kept\<close>

lemma foreign_key_sample: "foreign_key_holds (sample_db rows)"
  by (simp add: foreign_key_holds_def sample_db_def)

lemma foreign_key_create_station:
  assumes "foreign_key_holds db"
  shows "foreign_key_holds (fst (create_station db now sd))"
  using assms
  by (auto simp: foreign_key_holds_def create_station_def insert_station_def
      station_exists_def)

lemma station_exists_ids:
  "station_exists db i = (i \<in> set (map OxygenStation.station_id (oxygen_stations db)))"
  by (auto simp: station_exists_def)

lemma foreign_key_create_reading:
  assumes "foreign_key_holds db"
  shows "foreign_key_holds (fst (create_reading db now rd))"
proof (cases "station_exists db (CreateOxygenReading.station_id rd) \<and> reading_fits rd")
  case False
  then show ?thesis
    using assms by (auto simp: create_reading_def insert_reading_def)
next
  case True
  then have ex: "station_exists db (CreateOxygenReading.station_id rd)"
    and fit: "reading_fits rd"
    by simp_all
  note acc = create_reading_accepted [OF ex fit, of now]
  have ids: "map OxygenStation.station_id (oxygen_stations (fst (create_reading db now rd)))
               = map OxygenStation.station_id (oxygen_stations db)"
    by (simp add: acc set_current_level_fields o_def)
  have same: "station_exists (fst (create_reading db now rd)) i = station_exists db i" for i
    by (simp only: station_exists_ids ids)
  have rs: "oxygen_readings (fst (create_reading db now rd))
              = oxygen_readings db @ [new_reading (next_reading_id db) now rd]"
    by (simp add: acc)
  have "OxygenReading.station_id (new_reading (next_reading_id db) now rd)
          = CreateOxygenReading.station_id rd"
    by (simp add: new_reading_def)
  then show ?thesis
    using assms ex unfolding foreign_key_holds_def by (auto simp: rs same)
qed

lemma foreign_key_update_station:
  assumes "foreign_key_holds db"
  shows "foreign_key_holds (fst (update_station db now sid u))"
proof -
  have ids: "map OxygenStation.station_id (update_rows now sid u rows)
               = map OxygenStation.station_id rows" for rows
    by (induction rows) (simp_all add: update_rows_def apply_update_def)
  have "station_exists (db\<lparr>oxygen_stations := update_rows now sid u (oxygen_stations db)\<rparr>) i
          = station_exists db i" for i
    by (simp add: station_exists_ids ids)
  then show ?thesis
    using assms by (simp add: update_station_def foreign_key_holds_def)
qed

end
